theory Spec2Isabelle
  imports
    Main
    "HOL-Library.Word"
    "HOL-Library.Char_ord"
    "HOL-Library.List_Lexorder"
begin

section \<open>DatabaseReplicated: a shallow embedding of \<^verbatim>\<open>src/Databases/DatabaseReplicated.cpp\<close>\<close>

text \<open>
  The C++ class talks to three collaborators whose code is not part of the file: the
  coordination store (ZooKeeper), the SQL parser and the local (atomic) catalog. In the
  model every answer of a collaborator is an input (a field of an environment record or a
  function argument), every exception is a value \<open>Inl e\<close> of a sum type, and every call
  that changes the store is appended to a trace of calls, so that the order of the calls
  of the source can be read off the result.
\<close>

subsection \<open>Error codes\<close>

text \<open>
  The members of \<^verbatim>\<open>namespace ErrorCodes\<close> the file uses. \<open>SYNTAX_ERROR\<close> stands for
  what \<^verbatim>\<open>parseQuery\<close> throws, \<open>KEEPER_EXCEPTION\<close> for what a store call throws, and
  \<open>UNDEFINED_BEHAVIOUR\<close> marks a path on which the C++ has no defined meaning (reading
  through an end iterator, \<^verbatim>\<open>front()\<close> of an empty string).
\<close>

datatype zk_error = ZOK | ZNODEEXISTS | ZNONODE | ZBADVERSION | ZNOTEMPTY | ZCONNECTIONLOSS

datatype error =
    NO_ZOOKEEPER
  | LOGICAL_ERROR
  | BAD_ARGUMENTS
  | REPLICA_IS_ALREADY_EXIST
  | DATABASE_REPLICATION_FAILED
  | UNKNOWN_DATABASE
  | UNKNOWN_TABLE
  | NOT_IMPLEMENTED
  | INCORRECT_QUERY
  | ALL_CONNECTION_TRIES_FAILED
  | SYNTAX_ERROR
  | KEEPER_EXCEPTION zk_error
  | OUT_OF_RANGE
  | CANNOT_OPEN_FILE
  | ASSERTION_FAILED
  | UNDEFINED_BEHAVIOUR

subsection \<open>Strings\<close>

text \<open>
  \<^verbatim>\<open>std::string::find\<close>: the position of the first occurrence of a pattern at or after a
  start position, \<open>None\<close> for \<^verbatim>\<open>npos\<close>.
\<close>

fun find_from :: "string \<Rightarrow> string \<Rightarrow> nat \<Rightarrow> nat option" where
  "find_from pat [] i = (if pat = [] then Some i else None)"
| "find_from pat (c # cs) i =
     (if take (length pat) (c # cs) = pat then Some i else find_from pat cs (Suc i))"

definition find_str :: "string \<Rightarrow> string \<Rightarrow> nat option" where
  "find_str s pat = find_from pat s 0"

definition find_str_at :: "string \<Rightarrow> string \<Rightarrow> nat \<Rightarrow> nat option" where
  "find_str_at s pat pos = (if length s < pos then None else find_from pat (drop pos s) pos)"

definition DROPPED_MARK :: string where
  "DROPPED_MARK = ''DROPPED''"

definition BROKEN_TABLES_SUFFIX :: string where
  "BROKEN_TABLES_SUFFIX = ''_broken_tables''"

subsection \<open>The constructor's argument checks and path normalisation\<close>

text \<open>Lines 71--76: the three names must be non-empty, shard and replica free of \<open>/\<close> and \<open>|\<close>.\<close>

definition check_arguments :: "string \<Rightarrow> string \<Rightarrow> string \<Rightarrow> error + unit" where
  "check_arguments zookeeper_path shard_name replica_name =
     (if zookeeper_path = [] \<or> shard_name = [] \<or> replica_name = [] then Inl BAD_ARGUMENTS
      else if find_str shard_name ''/'' \<noteq> None \<or> find_str replica_name ''/'' \<noteq> None
        then Inl BAD_ARGUMENTS
      else if find_str shard_name ''|'' \<noteq> None \<or> find_str replica_name ''|'' \<noteq> None
        then Inl BAD_ARGUMENTS
      else Inr ())"

text \<open>
  Lines 78--83. \<^verbatim>\<open>back()\<close> and \<^verbatim>\<open>front()\<close> require a non-empty string; the source
  guards \<^verbatim>\<open>back()\<close> by the emptiness check of line 71, but \<^verbatim>\<open>front()\<close> is called after
  \<^verbatim>\<open>resize(size() - 1)\<close>, which empties the path \<^verbatim>\<open>"/"\<close>.
\<close>

definition normalize_zookeeper_path :: "string \<Rightarrow> error + string" where
  "normalize_zookeeper_path zookeeper_path =
     (if zookeeper_path = [] then Inl UNDEFINED_BEHAVIOUR
      else
        let p = (if last zookeeper_path = CHR ''/'' then take (length zookeeper_path - 1) zookeeper_path
                 else zookeeper_path)
        in if p = [] then Inl UNDEFINED_BEHAVIOUR
           else if hd p \<noteq> CHR ''/'' then Inr (''/'' @ p)
           else Inr p)"

text \<open>What the spec says of a stored path: it begins with \<open>/\<close> and does not end with \<open>/\<close>.\<close>

definition well_formed_path :: "string \<Rightarrow> bool" where
  "well_formed_path p = (p \<noteq> [] \<and> hd p = CHR ''/'' \<and> last p \<noteq> CHR ''/'')"

definition ends_with_two_slashes :: "string \<Rightarrow> bool" where
  "ends_with_two_slashes p = (2 \<le> length p \<and> drop (length p - 2) p = ''//'')"

subsection \<open>Requests to the coordination store\<close>

datatype CreateMode = Persistent | Ephemeral | EphemeralSequential | PersistentSequential

text \<open>
  \<^verbatim>\<open>zkutil::makeCreateRequest(path, data, mode)\<close>, \<^verbatim>\<open>makeRemoveRequest(path, version)\<close>
  and \<^verbatim>\<open>makeSetRequest(path, data, version)\<close>.
\<close>

datatype request =
    CreateRequest string string CreateMode
  | RemoveRequest string int
  | SetRequest string string int

text \<open>The calls of the source that write to the store, in the order issued.\<close>

datatype zk_call =
    CreateAncestors string
  | TryMulti "request list"
  | Multi "request list"
  | Create string string CreateMode
  | ZkSet string string
  | TryRemoveRecursive string
  | TryRemove string

fun request_path :: "request \<Rightarrow> string" where
  "request_path (CreateRequest p d m) = p"
| "request_path (RemoveRequest p v) = p"
| "request_path (SetRequest p d v) = p"

fun is_create_with_mode :: "CreateMode \<Rightarrow> request \<Rightarrow> bool" where
  "is_create_with_mode m (CreateRequest p d m') = (m' = m)"
| "is_create_with_mode m (RemoveRequest p v) = False"
| "is_create_with_mode m (SetRequest p d v) = False"

fun is_multi_call :: "zk_call \<Rightarrow> bool" where
  "is_multi_call (TryMulti ops) = True"
| "is_multi_call (Multi ops) = True"
| "is_multi_call c = False"

text \<open>
  The answers of the store to the calls of the constructor. \<^verbatim>\<open>exists\<close> and \<^verbatim>\<open>tryGet\<close>
  are taken as answered; the writing calls answer with a code, and the ones that throw on
  a code other than \<open>ZOK\<close> (\<^verbatim>\<open>createAncestors\<close>, \<^verbatim>\<open>create\<close>, \<^verbatim>\<open>multi\<close>) raise
  \<open>KEEPER_EXCEPTION\<close>.
\<close>

record zk_env =
  has_zookeeper :: bool
  exists_root :: bool
  createAncestors_result :: zk_error
  tryMulti_result :: zk_error
  tryGet_replica :: "string option"
  create_counter :: "zk_error + string"
  multi_result :: zk_error

subsection \<open>createDatabaseNodesInZooKeeper (lines 205--230)\<close>

definition createDatabaseNodes_ops :: "string \<Rightarrow> request list" where
  "createDatabaseNodes_ops zookeeper_path =
     [CreateRequest zookeeper_path [] Persistent,
      CreateRequest (zookeeper_path @ ''/log'') [] Persistent,
      CreateRequest (zookeeper_path @ ''/replicas'') [] Persistent,
      CreateRequest (zookeeper_path @ ''/counter'') [] Persistent,
      CreateRequest (zookeeper_path @ ''/counter/cnt-'') [] Persistent,
      RemoveRequest (zookeeper_path @ ''/counter/cnt-'') (- 1),
      CreateRequest (zookeeper_path @ ''/metadata'') [] Persistent,
      CreateRequest (zookeeper_path @ ''/max_log_ptr'') ''1'' Persistent,
      CreateRequest (zookeeper_path @ ''/logs_to_keep'') ''1000'' Persistent]"

text \<open>
  \<^verbatim>\<open>KeeperMultiException::check\<close> throws for every code but \<open>ZOK\<close>, so the
  \<^verbatim>\<open>assert(false)\<close> after it is not reached.
\<close>

definition createDatabaseNodesInZooKeeper :: "zk_env \<Rightarrow> string \<Rightarrow> zk_call list \<times> (error + bool)" where
  "createDatabaseNodesInZooKeeper env zookeeper_path =
     (if createAncestors_result env \<noteq> ZOK
        then ([CreateAncestors zookeeper_path], Inl (KEEPER_EXCEPTION (createAncestors_result env)))
      else
        let ops = createDatabaseNodes_ops zookeeper_path;
            res = tryMulti_result env
        in ([CreateAncestors zookeeper_path, TryMulti ops],
            if res = ZOK then Inr True
            else if res = ZNODEEXISTS then Inr False
            else Inl (KEEPER_EXCEPTION res)))"

subsection \<open>createReplicaNodesInZooKeeper (lines 232--254)\<close>

text \<open>
  \<open>log_entry\<close> is the text of the empty \<^verbatim>\<open>DDLLogEntry\<close> (\<^verbatim>\<open>entry.toString()\<close>).
  \<^verbatim>\<open>substr(pos)\<close> throws \<^verbatim>\<open>std::out_of_range\<close> when \<open>pos\<close> exceeds the size.
\<close>

definition createReplicaNodesInZooKeeper ::
  "zk_env \<Rightarrow> string \<Rightarrow> string \<Rightarrow> string \<Rightarrow> string \<Rightarrow> zk_call list \<times> (error + unit)" where
  "createReplicaNodesInZooKeeper env zookeeper_path replica_path host_id log_entry =
     (let query_path_prefix = zookeeper_path @ ''/log/query-'';
          counter_prefix = zookeeper_path @ ''/counter/cnt-''
      in case create_counter env of
           Inl e \<Rightarrow> ([Create counter_prefix [] EphemeralSequential], Inl (KEEPER_EXCEPTION e))
         | Inr counter_path \<Rightarrow>
             if length counter_path < length counter_prefix
               then ([Create counter_prefix [] EphemeralSequential], Inl OUT_OF_RANGE)
             else
               let query_path = query_path_prefix @ drop (length counter_prefix) counter_path;
                   ops = [CreateRequest replica_path host_id Persistent,
                          CreateRequest (replica_path @ ''/log_ptr'') ''0'' Persistent,
                          CreateRequest query_path log_entry Persistent,
                          RemoveRequest counter_path (- 1)]
               in ([Create counter_prefix [] EphemeralSequential, Multi ops],
                   if multi_result env = ZOK then Inr ()
                   else Inl (KEEPER_EXCEPTION (multi_result env))))"

subsection \<open>The constructor (lines 58--115)\<close>

record database =
  db_zookeeper_path :: string
  db_shard_name :: string
  db_replica_name :: string
  db_replica_path :: string

definition getFullReplicaName :: "string \<Rightarrow> string \<Rightarrow> string" where
  "getFullReplicaName shard_name replica_name = shard_name @ ''|'' @ replica_name"

text \<open>
  \<^verbatim>\<open>getHostID\<close>: \<open>address\<close> is the text \<^verbatim>\<open>Cluster::Address::toString\<close> makes of the host
  name and the TCP port, \<open>db_uuid\<close> the text of the database UUID.
\<close>

definition getHostID :: "string \<Rightarrow> string \<Rightarrow> string" where
  "getHostID address db_uuid = address @ '':'' @ db_uuid"

definition DatabaseReplicated_ctor ::
  "zk_env \<Rightarrow> string \<Rightarrow> string \<Rightarrow> string \<Rightarrow> string \<Rightarrow> string \<Rightarrow> string
     \<Rightarrow> zk_call list \<times> (error + database)" where
  "DatabaseReplicated_ctor env zookeeper_path0 shard_name replica_name address db_uuid log_entry =
     (case check_arguments zookeeper_path0 shard_name replica_name of
        Inl e \<Rightarrow> ([], Inl e)
      | Inr _ \<Rightarrow>
     (case normalize_zookeeper_path zookeeper_path0 of
        Inl e \<Rightarrow> ([], Inl e)
      | Inr zookeeper_path \<Rightarrow>
     if \<not> has_zookeeper env then ([], Inl NO_ZOOKEEPER)
     else
       let created = (if \<not> exists_root env then createDatabaseNodesInZooKeeper env zookeeper_path
                      else ([], Inr True))
       in case snd created of
            Inl e \<Rightarrow> (fst created, Inl e)
          | Inr _ \<Rightarrow>
              let replica_path = zookeeper_path @ ''/replicas/''
                                   @ getFullReplicaName shard_name replica_name;
                  db = \<lparr>db_zookeeper_path = zookeeper_path, db_shard_name = shard_name,
                        db_replica_name = replica_name, db_replica_path = replica_path\<rparr>
              in case tryGet_replica env of
                   Some replica_host_id \<Rightarrow>
                     let host_id = getHostID address db_uuid
                     in if replica_host_id \<noteq> host_id
                          then (fst created, Inl REPLICA_IS_ALREADY_EXIST)
                        else (fst created, Inr db)
                 | None \<Rightarrow>
                     let joined = createReplicaNodesInZooKeeper env zookeeper_path replica_path
                                    (getHostID address db_uuid) log_entry
                     in (fst created @ fst joined,
                         case snd joined of Inl e \<Rightarrow> Inl e | Inr _ \<Rightarrow> Inr db)))"

text \<open>A call of the constructor that creates the replica's nodes: the counter child or the join multi-op.\<close>

fun creates_replica_nodes :: "zk_call \<Rightarrow> bool" where
  "creates_replica_nodes (Create p d m) = True"
| "creates_replica_nodes (Multi ops) = True"
| "creates_replica_nodes c = False"

subsection \<open>CREATE statements and the parser\<close>

type_synonym UUID = "128 word"

definition UUIDHelpers_Nil :: UUID where
  "UUIDHelpers_Nil = 0"

text \<open>
  The fields of \<^verbatim>\<open>ASTCreateQuery\<close> the file reads or writes; \<open>ast_storage\<close> stands for
  the rest of the statement (columns, engine, settings), which the file never touches.
\<close>

record ASTCreateQuery =
  ast_uuid :: UUID
  ast_database :: string
  ast_table :: string
  ast_attach :: bool
  ast_storage :: string

text \<open>
  \<^verbatim>\<open>parseQuery\<close> with \<^verbatim>\<open>ParserCreateQuery\<close> is not part of the file: it is an argument
  \<open>parser\<close> of the functions that call it, returning the parsed CREATE or the exception it
  throws. So are \<^verbatim>\<open>escapeForFileName\<close>, \<^verbatim>\<open>unescapeForFileName\<close> and the constant
  \<^verbatim>\<open>TABLE_WITH_UUID_NAME_PLACEHOLDER\<close>.
\<close>

type_synonym parser = "string \<Rightarrow> error + ASTCreateQuery"

subsection \<open>parseQueryFromMetadataInZooKeeper (lines 478--493)\<close>

definition parseQueryFromMetadataInZooKeeper ::
  "parser \<Rightarrow> (string \<Rightarrow> string) \<Rightarrow> string \<Rightarrow> string \<Rightarrow> string \<Rightarrow> string \<Rightarrow> error + ASTCreateQuery" where
  "parseQueryFromMetadataInZooKeeper parser unescapeForFileName placeholder database_name node_name query =
     (case parser query of
        Inl e \<Rightarrow> Inl e
      | Inr create \<Rightarrow>
          if ast_uuid create = UUIDHelpers_Nil \<or> ast_table create \<noteq> placeholder
               \<or> ast_database create \<noteq> []
            then Inl LOGICAL_ERROR
          else Inr (create\<lparr>ast_database := database_name,
                           ast_table := unescapeForFileName node_name,
                           ast_attach := False\<rparr>))"

subsection \<open>renameTable (lines 535--566)\<close>

record MetadataTransaction =
  is_initial_query :: bool
  txn_zookeeper_path :: string
  txn_ops :: "request list"

text \<open>
  A database object as renameTable sees it: its address (\<^verbatim>\<open>this != &to_database\<close>
  compares addresses) and its \<^verbatim>\<open>isTableExist\<close>.
\<close>

record IDatabase =
  db_address :: nat
  isTableExist :: "string \<Rightarrow> bool"

text \<open>The call the function ends with: \<^verbatim>\<open>DatabaseAtomic::renameTable\<close> and its arguments.\<close>

datatype atomic_call = AtomicRenameTable string nat string bool bool

text \<open>
  The transaction is changed in place, so the result holds the transaction as the call
  leaves it, also when it raises. \<^verbatim>\<open>assert(txn)\<close> fails on a null transaction.
  \<open>readMetadataFile\<close> (lines 636--642) reads a file of the local catalog and raises when
  it cannot be opened; the content of the files is an argument.
\<close>

definition renameTable ::
  "IDatabase \<Rightarrow> (string \<Rightarrow> error + string) \<Rightarrow> (string \<Rightarrow> string) \<Rightarrow> MetadataTransaction option
     \<Rightarrow> string \<Rightarrow> IDatabase \<Rightarrow> string \<Rightarrow> bool \<Rightarrow> bool
     \<Rightarrow> MetadataTransaction option \<times> (error + atomic_call)" where
  "renameTable this readMetadataFile escapeForFileName context_txn table_name to_database to_table_name
       exchange dictionary =
     (case context_txn of
        None \<Rightarrow> (None, Inl ASSERTION_FAILED)
      | Some txn \<Rightarrow>
          let delegate = AtomicRenameTable table_name (db_address to_database) to_table_name
                           exchange dictionary
          in
          if is_initial_query txn then
            if db_address this \<noteq> db_address to_database then (Some txn, Inl NOT_IMPLEMENTED)
            else if table_name = to_table_name then (Some txn, Inl INCORRECT_QUERY)
            else if \<not> isTableExist this table_name then (Some txn, Inl UNKNOWN_TABLE)
            else if exchange \<and> \<not> isTableExist to_database to_table_name
              then (Some txn, Inl UNKNOWN_TABLE)
            else
              case readMetadataFile table_name of
                Inl e \<Rightarrow> (Some txn, Inl e)
              | Inr statement \<Rightarrow>
                  let metadata_zk_path = txn_zookeeper_path txn @ ''/metadata/''
                                           @ escapeForFileName table_name;
                      metadata_zk_path_to = txn_zookeeper_path txn @ ''/metadata/''
                                              @ escapeForFileName to_table_name;
                      txn1 = txn\<lparr>txn_ops := txn_ops txn @ [RemoveRequest metadata_zk_path (- 1)]\<rparr>
                  in
                  if exchange then
                    case readMetadataFile to_table_name of
                      Inl e \<Rightarrow> (Some txn1, Inl e)
                    | Inr statement_to \<Rightarrow>
                        (Some (txn1\<lparr>txn_ops := txn_ops txn1
                                 @ [RemoveRequest metadata_zk_path_to (- 1),
                                    CreateRequest metadata_zk_path statement_to Persistent,
                                    CreateRequest metadata_zk_path_to statement Persistent]\<rparr>),
                         Inr delegate)
                  else
                    (Some (txn1\<lparr>txn_ops := txn_ops txn1
                             @ [CreateRequest metadata_zk_path_to statement Persistent]\<rparr>),
                     Inr delegate)
          else (Some txn, Inr delegate))"

subsection \<open>parseFullReplicaName (lines 122--132)\<close>

definition parseFullReplicaName :: "string \<Rightarrow> error + string \<times> string" where
  "parseFullReplicaName name =
     (case find_str name ''|'' of
        None \<Rightarrow> Inl LOGICAL_ERROR
      | Some pos \<Rightarrow>
          if find_str_at name ''|'' (pos + 1) \<noteq> None then Inl LOGICAL_ERROR
          else Inr (take pos name, drop (pos + 1) name))"

subsection \<open>getCluster (lines 134--203)\<close>

text \<open>The two fields of \<^verbatim>\<open>Coordination::Stat\<close> the function reads, both \<^verbatim>\<open>Int32\<close>.\<close>

record Stat =
  stat_version :: "32 word"
  stat_cversion :: "32 word"

text \<open>
  What the store answers during one iteration of the retry loop: the children of
  \<open>/replicas\<close> with the stat of the node, the answer \<open>(error, data)\<close> of \<^verbatim>\<open>asyncTryGet\<close>
  for each path, and the stat that the later \<^verbatim>\<open>get\<close> of \<open>/replicas\<close> fills in. The store
  of the whole call is a function from the iteration number (1, 2, ...) to these answers.
\<close>

record replicas_obs =
  obs_children :: "string list"
  obs_stat :: Stat
  obs_get :: "string \<Rightarrow> zk_error \<times> string"
  obs_stat_after :: Stat

definition max_retries :: nat where
  "max_retries = 10"

text \<open>
  The loop \<^verbatim>\<open>while (++iteration <= max_retries)\<close>, with the variables it assigns:
  \<open>hosts\<close>, \<open>host_ids\<close> and \<open>success\<close>. It returns their values when the loop is left,
  by \<^verbatim>\<open>break\<close> or by the loop condition, or the exception of line 150.
\<close>

function getCluster_loop ::
  "(nat \<Rightarrow> replicas_obs) \<Rightarrow> string \<Rightarrow> nat \<Rightarrow> string list \<Rightarrow> string list \<Rightarrow> bool
     \<Rightarrow> error + string list \<times> string list \<times> bool" where
  "getCluster_loop zookeeper zookeeper_path iteration hosts host_ids success =
     (if iteration + 1 \<le> max_retries then
        let obs = zookeeper (iteration + 1) in
        if obs_children obs = [] then Inl LOGICAL_ERROR
        else
          let cver = stat_cversion (obs_stat obs);
              hosts' = sort (obs_children obs);
              futures = map (\<lambda>host. obs_get obs (zookeeper_path @ ''/replicas/'' @ host)) hosts';
              success' = list_all (\<lambda>res. fst res = ZOK) futures;
              host_ids' = map snd futures
          in if success' \<and> cver = stat_version (obs_stat_after obs)
               then Inr (hosts', host_ids', success')
             else getCluster_loop zookeeper zookeeper_path (iteration + 1) hosts' host_ids' success'
      else Inr (hosts, host_ids, success))"
  by pat_completeness auto
termination
  by (relation "measure (\<lambda>(zookeeper, zookeeper_path, iteration, hosts, host_ids, success).
                   Suc max_retries - iteration)") auto

declare getCluster_loop.simps [simp del]

text \<open>\<^verbatim>\<open>id.substr(0, id.find(':'))\<close>: the whole string when there is no colon.\<close>

definition host_of_id :: "string \<Rightarrow> string" where
  "host_of_id id' = (case find_str id' '':'' of None \<Rightarrow> id' | Some pos \<Rightarrow> take pos id')"

text \<open>
  The grouping loop of lines 181--196 over the pairs \<open>(hosts[i], host_ids[i])\<close>. The
  vector \<open>shards\<close> is never empty (it starts with one empty shard and only grows), so
  it is kept as the shards before the last one and the last one, \<^verbatim>\<open>shards.back()\<close>.
\<close>

fun group_shards ::
  "(string \<Rightarrow> string) \<Rightarrow> (string \<times> string) list \<Rightarrow> string \<Rightarrow> string list list \<Rightarrow> string list
     \<Rightarrow> error + string list list" where
  "group_shards unescapeForFileName [] current_shard shards back_shard = Inr (shards @ [back_shard])"
| "group_shards unescapeForFileName ((host_name, id') # rest) current_shard shards back_shard =
     (if id' = DROPPED_MARK then group_shards unescapeForFileName rest current_shard shards back_shard
      else
        case parseFullReplicaName host_name of
          Inl e \<Rightarrow> Inl e
        | Inr (shard, replica) \<Rightarrow>
            if shard \<noteq> current_shard \<and> back_shard \<noteq> []
              then group_shards unescapeForFileName rest shard (shards @ [back_shard])
                     [unescapeForFileName (host_of_id id')]
            else group_shards unescapeForFileName rest shard shards
                   (back_shard @ [unescapeForFileName (host_of_id id')]))"

text \<open>
  The function returns the shards of the \<^verbatim>\<open>Cluster\<close> it builds (the user name, the
  password and the port of the cluster are constants of the context). The asserts of
  lines 176--177 hold whenever line 178 is reached with \<open>success\<close> set by an iteration.
\<close>

definition getCluster ::
  "(nat \<Rightarrow> replicas_obs) \<Rightarrow> string \<Rightarrow> (string \<Rightarrow> string) \<Rightarrow> error + string list list" where
  "getCluster zookeeper zookeeper_path unescapeForFileName =
     (case getCluster_loop zookeeper zookeeper_path 0 [] [] False of
        Inl e \<Rightarrow> Inl e
      | Inr (hosts, host_ids, success) \<Rightarrow>
          if \<not> success then Inl ALL_CONNECTION_TRIES_FAILED
          else
            case hosts of
              [] \<Rightarrow> Inl ASSERTION_FAILED
            | front # _ \<Rightarrow>
                (case parseFullReplicaName front of
                   Inl e \<Rightarrow> Inl e
                 | Inr (current_shard, replica) \<Rightarrow>
                     group_shards unescapeForFileName (zip hosts host_ids) current_shard [] []))"

text \<open>
  The values of the replica nodes as one iteration reads them, in the order of the sorted
  names, and the consistency the spec asks of an iteration: the \<open>cversion\<close> of \<open>/replicas\<close>
  is the same before and after the reads, and every read succeeded.
\<close>

definition replica_values :: "replicas_obs \<Rightarrow> string \<Rightarrow> string list" where
  "replica_values obs zookeeper_path =
     map (\<lambda>host. snd (obs_get obs (zookeeper_path @ ''/replicas/'' @ host))) (sort (obs_children obs))"

definition consistent_obs :: "replicas_obs \<Rightarrow> string \<Rightarrow> bool" where
  "consistent_obs obs zookeeper_path =
     (stat_cversion (obs_stat obs) = stat_cversion (obs_stat_after obs)
      \<and> list_all (\<lambda>host. fst (obs_get obs (zookeeper_path @ ''/replicas/'' @ host)) = ZOK)
           (obs_children obs))"

subsection \<open>drop (lines 495--507)\<close>

text \<open>
  \<^verbatim>\<open>DatabaseReplicated::drop\<close>, named \<open>drop_replica\<close> here (\<open>drop\<close> is a function on lists).
  Its calls in the order issued: calls to the store, and \<^verbatim>\<open>DatabaseAtomic::drop\<close>,
  which removes the local objects. \<^verbatim>\<open>set\<close> throws on a code other than \<open>ZOK\<close>, the local
  drop may raise, and \<^verbatim>\<open>tryRemove\<close> answers with a code.
\<close>

datatype drop_call = Store zk_call | LocalDrop

record drop_env =
  set_result :: zk_error
  atomic_drop_result :: "error option"
  tryRemove_result :: zk_error

definition drop_replica :: "drop_env \<Rightarrow> database \<Rightarrow> drop_call list \<times> error option" where
  "drop_replica env db =
     (let mark = Store (ZkSet (db_replica_path db) DROPPED_MARK) in
      if set_result env \<noteq> ZOK then ([mark], Some (KEEPER_EXCEPTION (set_result env)))
      else
        case atomic_drop_result env of
          Some e \<Rightarrow> ([mark, LocalDrop], Some e)
        | None \<Rightarrow>
            let calls = [mark, LocalDrop,
                         Store (TryRemoveRecursive (db_replica_path db)),
                         Store (TryRemove (db_zookeeper_path db @ ''/replicas''))]
            in if tryRemove_result env = ZOK
                 then (calls @ [Store (TryRemoveRecursive (db_zookeeper_path db))], None)
               else (calls, None))"

fun is_removal :: "drop_call \<Rightarrow> bool" where
  "is_removal LocalDrop = True"
| "is_removal (Store (TryRemoveRecursive p)) = True"
| "is_removal (Store (TryRemove p)) = True"
| "is_removal (Store c) = False"

subsection \<open>tryGetConsistentMetadataSnapshot (lines 429--476)\<close>

text \<open>
  The snapshot is a \<^verbatim>\<open>std::map\<close> from table name to metadata text: a list of pairs in the
  order of the keys, without duplicate keys. \<^verbatim>\<open>emplace\<close> leaves the map as it is when
  the key is there.
\<close>

type_synonym snapshot = "(string \<times> string) list"

definition map_emplace :: "string \<Rightarrow> string \<Rightarrow> snapshot \<Rightarrow> snapshot" where
  "map_emplace k v m = (if k \<in> fst ` set m then m else insort_key fst (k, v) m)"

text \<open>
  What the store answers during one iteration: the children of \<open>/metadata\<close>, the answer of
  \<^verbatim>\<open>asyncTryGet\<close> for each path, and the number read from \<open>/max_log_ptr\<close>.
\<close>

record metadata_obs =
  mobs_table_names :: "string list"
  mobs_get :: "string \<Rightarrow> zk_error \<times> string"
  mobs_max_log_ptr :: "32 word"

text \<open>The loop of lines 445--451: it stops at the first answer that is not \<open>ZOK\<close>.\<close>

fun collect_metadata ::
  "(string \<Rightarrow> string) \<Rightarrow> (string \<Rightarrow> zk_error \<times> string) \<Rightarrow> string \<Rightarrow> string list \<Rightarrow> snapshot \<Rightarrow> snapshot" where
  "collect_metadata unescapeForFileName get zookeeper_path [] m = m"
| "collect_metadata unescapeForFileName get zookeeper_path (table # rest) m =
     (let res = get (zookeeper_path @ ''/metadata/'' @ table) in
      if fst res \<noteq> ZOK then m
      else collect_metadata unescapeForFileName get zookeeper_path rest
             (map_emplace (unescapeForFileName table) (snd res) m))"

text \<open>
  The loop \<^verbatim>\<open>while (++iteration <= max_retries)\<close>; it returns \<open>iteration\<close>,
  \<open>max_log_ptr\<close> (a reference parameter) and the map as the loop leaves them. The asserts
  of lines 464--465 are debug checks and are not modelled.
\<close>

function snapshot_loop ::
  "(nat \<Rightarrow> metadata_obs) \<Rightarrow> (string \<Rightarrow> string) \<Rightarrow> string \<Rightarrow> nat \<Rightarrow> 32 word \<Rightarrow> snapshot
     \<Rightarrow> nat \<times> 32 word \<times> snapshot" where
  "snapshot_loop zookeeper unescapeForFileName zookeeper_path iteration max_log_ptr table_name_to_metadata =
     (if iteration + 1 \<le> max_retries then
        let obs = zookeeper (iteration + 1);
            table_names = mobs_table_names obs;
            m = collect_metadata unescapeForFileName (mobs_get obs) zookeeper_path table_names [];
            new_max_log_ptr = mobs_max_log_ptr obs
        in if new_max_log_ptr = max_log_ptr \<and> length table_names = length m
             then (iteration + 1, max_log_ptr, m)
           else snapshot_loop zookeeper unescapeForFileName zookeeper_path (iteration + 1)
                  (if max_log_ptr < new_max_log_ptr then new_max_log_ptr else max_log_ptr) m
      else (iteration + 1, max_log_ptr, table_name_to_metadata))"
  by pat_completeness auto
termination
  by (relation "measure (\<lambda>(zookeeper, unescapeForFileName, zookeeper_path, iteration, max_log_ptr, m).
                   Suc max_retries - iteration)") auto

declare snapshot_loop.simps [simp del]

definition tryGetConsistentMetadataSnapshot ::
  "(nat \<Rightarrow> metadata_obs) \<Rightarrow> (string \<Rightarrow> string) \<Rightarrow> string \<Rightarrow> 32 word \<Rightarrow> error + snapshot \<times> 32 word" where
  "tryGetConsistentMetadataSnapshot zookeeper unescapeForFileName zookeeper_path max_log_ptr =
     (case snapshot_loop zookeeper unescapeForFileName zookeeper_path 0 max_log_ptr [] of
        (iteration, max_log_ptr', table_name_to_metadata) \<Rightarrow>
          if max_retries < iteration then Inl DATABASE_REPLICATION_FAILED
          else Inr (table_name_to_metadata, max_log_ptr'))"

subsection \<open>recoverLostReplica (lines 300--427)\<close>

text \<open>
  An object of the local catalog as the function sees it: its name, the text of its
  metadata file (\<^verbatim>\<open>readMetadataFile\<close>; every object of the catalog has its file),
  \<^verbatim>\<open>isDictionaryExist\<close>, \<^verbatim>\<open>storesDataOnDisk\<close> and its UUID.
\<close>

record local_table =
  tbl_name :: string
  tbl_metadata :: string
  tbl_is_dictionary :: bool
  tbl_stores_data_on_disk :: bool
  tbl_uuid :: UUID

text \<open>
  Lines 319--343 for one table: \<open>Inr True\<close> when the name is appended to
  \<open>tables_to_detach\<close>, \<open>Inr False\<close> when the table is kept. When the name is not in the
  snapshot, \<open>in_zk\<close> is the end iterator and line 324 reads \<^verbatim>\<open>in_zk->second\<close>.
\<close>

definition should_detach :: "parser \<Rightarrow> snapshot \<Rightarrow> string \<Rightarrow> string \<Rightarrow> error + bool" where
  "should_detach parser table_name_to_metadata name local_metadata =
     (case map_of table_name_to_metadata name of
        None \<Rightarrow> Inl UNDEFINED_BEHAVIOUR
      | Some zk_metadata \<Rightarrow>
          if zk_metadata \<noteq> local_metadata then
            let looks_like_replicated = (find_str zk_metadata ''ReplicatedMergeTree'' \<noteq> None)
            in if looks_like_replicated then
                 (case parser local_metadata of
                    Inl e \<Rightarrow> Inl e
                  | Inr local_create \<Rightarrow>
                      (case parser zk_metadata of
                         Inl e \<Rightarrow> Inl e
                       | Inr zk_create \<Rightarrow> Inr (ast_uuid local_create \<noteq> ast_uuid zk_create)))
               else Inr True
          else Inr False)"

text \<open>The loop of lines 316--347, with \<open>tables_to_detach\<close> and the \<^verbatim>\<open>size_t\<close> counter \<open>total_tables\<close>.\<close>

fun reconcile_tables ::
  "parser \<Rightarrow> snapshot \<Rightarrow> local_table list \<Rightarrow> string list \<Rightarrow> 64 word \<Rightarrow> error + string list \<times> 64 word" where
  "reconcile_tables parser table_name_to_metadata [] tables_to_detach total_tables =
     Inr (tables_to_detach, total_tables)"
| "reconcile_tables parser table_name_to_metadata (t # existing) tables_to_detach total_tables =
     (case should_detach parser table_name_to_metadata (tbl_name t) (tbl_metadata t) of
        Inl e \<Rightarrow> Inl e
      | Inr detach \<Rightarrow>
          reconcile_tables parser table_name_to_metadata existing
            (if detach then tables_to_detach @ [tbl_name t] else tables_to_detach)
            (total_tables + 1))"

text \<open>Decimal text of a number, as \<^verbatim>\<open>toString\<close> and \<^verbatim>\<open>fmt::format("{}")\<close> print it.\<close>

fun toString_nat :: "nat \<Rightarrow> string" where
  "toString_nat n =
     (if n < 10 then [''0123456789'' ! n]
      else toString_nat (n div 10) @ [''0123456789'' ! (n mod 10)])"

declare toString_nat.simps [simp del]

text \<open>
  The calls of the function that change the local catalog or the store, in the order
  issued: \<^verbatim>\<open>executeQuery\<close> of the CREATE DATABASE text, \<^verbatim>\<open>DatabaseAtomic::removeDictionary\<close>,
  \<^verbatim>\<open>shutdown\<close> and \<^verbatim>\<open>DatabaseAtomic::dropTable\<close>, \<^verbatim>\<open>DatabaseAtomic::renameTable\<close> into
  the database of broken tables, \<^verbatim>\<open>waitTableFinallyDropped\<close>, the execution of a CREATE
  by \<^verbatim>\<open>InterpreterCreateQuery\<close>, and the \<^verbatim>\<open>set\<close> of the replica's \<open>log_ptr\<close>.
\<close>

datatype recovery_call =
    ExecuteQuery string
  | RemoveDictionary string
  | ShutdownTable string
  | DropTable string
  | RenameTableTo string string string
  | WaitTableFinallyDropped UUID
  | ExecuteCreate ASTCreateQuery
  | SetLogPtr string string

text \<open>The replica while it recovers: the name of the database, its local objects, and the calls made so far.\<close>

record replica_state =
  rs_database_name :: string
  rs_tables :: "local_table list"
  rs_calls :: "recovery_call list"

text \<open>
  What the function takes from its surroundings: the parser, \<^verbatim>\<open>unescapeForFileName\<close>,
  the placeholder constant, \<^verbatim>\<open>backQuoteIfNeed\<close>, the draws of \<^verbatim>\<open>thread_local_rng\<close>,
  the table that \<^verbatim>\<open>InterpreterCreateQuery\<close> creates from a CREATE (or its exception),
  the answers of the store to the snapshot loop, the code of the final \<^verbatim>\<open>set\<close>, and
  what \<^verbatim>\<open>getDatabaseName\<close> returns under the guards of each pass of the detach loop.
\<close>

record recovery_env =
  re_parser :: parser
  re_unescapeForFileName :: "string \<Rightarrow> string"
  re_placeholder :: string
  re_backQuoteIfNeed :: "string \<Rightarrow> string"
  re_rng :: "nat \<Rightarrow> 64 word"
  re_interpreter :: "ASTCreateQuery \<Rightarrow> error + local_table"
  re_zookeeper :: "nat \<Rightarrow> metadata_obs"
  re_set_result :: zk_error
  re_getDatabaseName :: "nat \<Rightarrow> string"

text \<open>
  Modelled from the spec: \<^verbatim>\<open>empty()\<close>, \<^verbatim>\<open>isTableExist\<close> and the effect of the three
  removals on the local catalog are code of the base classes, not in the file. The catalog
  is empty when it has no object; a name exists when an object bears it; a dropped
  dictionary, a dropped table and a table renamed into the other database leave the catalog.
\<close>

definition empty_catalog :: "replica_state \<Rightarrow> bool" where
  "empty_catalog s = (rs_tables s = [])"

definition isTableExist_local :: "replica_state \<Rightarrow> string \<Rightarrow> bool" where
  "isTableExist_local s name = (name \<in> tbl_name ` set (rs_tables s))"

definition remove_local :: "string \<Rightarrow> replica_state \<Rightarrow> replica_state" where
  "remove_local name s = s\<lparr>rs_tables := filter (\<lambda>t. tbl_name t \<noteq> name) (rs_tables s)\<rparr>"

definition call :: "recovery_call list \<Rightarrow> replica_state \<Rightarrow> replica_state" where
  "call cs s = s\<lparr>rs_calls := rs_calls s @ cs\<rparr>"

text \<open>
  The loop of lines 368--397 over \<open>tables_to_detach\<close>; \<open>k\<close> counts the passes, \<open>dropped_tables\<close>
  collects the UUIDs of the dropped tables. A name of the list is the name of a local
  object; \<^verbatim>\<open>tryGetTable\<close> of another name would return a null pointer.
\<close>

fun detach_tables ::
  "recovery_env \<Rightarrow> string \<Rightarrow> string \<Rightarrow> 32 word \<Rightarrow> string list \<Rightarrow> nat \<Rightarrow> UUID list \<Rightarrow> replica_state
     \<Rightarrow> (replica_state \<times> UUID list) \<times> error option" where
  "detach_tables env db_name to_db_name max_log_ptr [] k dropped_tables s = ((s, dropped_tables), None)"
| "detach_tables env db_name to_db_name max_log_ptr (table_name # rest) k dropped_tables s =
     (let to_name = table_name @ ''_'' @ toString_nat (unat max_log_ptr) @ ''_''
                      @ toString_nat (unat (re_rng env k) mod 1000)
      in if re_getDatabaseName env k \<noteq> db_name then ((s, dropped_tables), Some UNKNOWN_DATABASE)
         else
           case find (\<lambda>t. tbl_name t = table_name) (rs_tables s) of
             None \<Rightarrow> ((s, dropped_tables), Some UNDEFINED_BEHAVIOUR)
           | Some t \<Rightarrow>
               if tbl_is_dictionary t then
                 detach_tables env db_name to_db_name max_log_ptr rest (k + 1) dropped_tables
                   (remove_local table_name (call [RemoveDictionary table_name] s))
               else if \<not> tbl_stores_data_on_disk t then
                 detach_tables env db_name to_db_name max_log_ptr rest (k + 1)
                   (dropped_tables @ [tbl_uuid t])
                   (remove_local table_name (call [ShutdownTable table_name, DropTable table_name] s))
               else
                 detach_tables env db_name to_db_name max_log_ptr rest (k + 1) dropped_tables
                   (remove_local table_name (call [RenameTableTo table_name to_db_name to_name] s)))"

text \<open>The loop of lines 406--424 over the snapshot, in the order of its keys.\<close>

fun create_missing_tables ::
  "recovery_env \<Rightarrow> snapshot \<Rightarrow> replica_state \<Rightarrow> replica_state \<times> error option" where
  "create_missing_tables env [] s = (s, None)"
| "create_missing_tables env (name_and_meta # rest) s =
     (if isTableExist_local s (fst name_and_meta) then create_missing_tables env rest s
      else
        case parseQueryFromMetadataInZooKeeper (re_parser env) (re_unescapeForFileName env)
               (re_placeholder env) (rs_database_name s) (fst name_and_meta) (snd name_and_meta) of
          Inl e \<Rightarrow> (s, Some e)
        | Inr query_ast \<Rightarrow>
            (case re_interpreter env query_ast of
               Inl e \<Rightarrow> (call [ExecuteCreate query_ast] s, Some e)
             | Inr t \<Rightarrow>
                 create_missing_tables env rest
                   ((call [ExecuteCreate query_ast] s)\<lparr>rs_tables := rs_tables s @ [t]\<rparr>)))"

text \<open>
  The whole function. The result is the state of the replica when the function returns
  or raises, and the exception if it raises.
\<close>

definition recoverLostReplica ::
  "recovery_env \<Rightarrow> database \<Rightarrow> 32 word \<Rightarrow> 32 word \<Rightarrow> replica_state \<Rightarrow> replica_state \<times> error option" where
  "recoverLostReplica env db our_log_ptr max_log_ptr0 s =
     (let new_replica = (our_log_ptr = 0) in
      if new_replica \<and> \<not> empty_catalog s then (s, Some LOGICAL_ERROR)
      else
        case tryGetConsistentMetadataSnapshot (re_zookeeper env) (re_unescapeForFileName env)
               (db_zookeeper_path db) max_log_ptr0 of
          Inl e \<Rightarrow> (s, Some e)
        | Inr (table_name_to_metadata, max_log_ptr) \<Rightarrow>
        (case reconcile_tables (re_parser env) table_name_to_metadata (rs_tables s) [] 0 of
          Inl e \<Rightarrow> (s, Some e)
        | Inr (tables_to_detach, total_tables) \<Rightarrow>
            let db_name = rs_database_name s;
                to_db_name = rs_database_name s @ BROKEN_TABLES_SUFFIX
            in
            if total_tables < of_nat (length tables_to_detach) * 2
              then (s, Some DATABASE_REPLICATION_FAILED)
            else
              let s1 = (if tables_to_detach \<noteq> []
                        then call [ExecuteQuery (''CREATE DATABASE IF NOT EXISTS ''
                                     @ re_backQuoteIfNeed env to_db_name @ '' ENGINE=Ordinary'')] s
                        else s)
              in
              case detach_tables env db_name to_db_name max_log_ptr tables_to_detach 0 [] s1 of
                ((s2, dropped_tables), Some e) \<Rightarrow> (s2, Some e)
              | ((s2, dropped_tables), None) \<Rightarrow>
                  let s3 = call (map WaitTableFinallyDropped dropped_tables) s2 in
                  (case create_missing_tables env table_name_to_metadata s3 of
                     (s4, Some e) \<Rightarrow> (s4, Some e)
                   | (s4, None) \<Rightarrow>
                       let s5 = call [SetLogPtr (db_replica_path db @ ''/log_ptr'')
                                        (toString_nat (unat max_log_ptr))] s4
                       in if re_set_result env \<noteq> ZOK
                            then (s5, Some (KEEPER_EXCEPTION (re_set_result env)))
                          else (s5, None))))"

subsection \<open>Example inputs\<close>

text \<open>
  Concrete inputs for the closed theorems below. The example parser rejects the empty
  text and reads the UUID 7 from a text that names it, the UUID 8 otherwise. The example
  store answers every iteration alike: \<open>/metadata\<close> has the children \<open>t\<close> and \<open>a\<close>, and
  \<open>/max_log_ptr\<close> holds 5.
\<close>

definition example_parser :: parser where
  "example_parser q =
     (if q = [] then Inl SYNTAX_ERROR
      else Inr \<lparr>ast_uuid = (if find_str q ''UUID 7'' \<noteq> None then 7 else 8), ast_database = [],
                ast_table = ''_'', ast_attach = True, ast_storage = q\<rparr>)"

definition example_snapshot :: snapshot where
  "example_snapshot =
     [(''a'', ''UUID 8 ENGINE = Log''), (''t'', ''UUID 7 ENGINE = ReplicatedMergeTree ORDER BY x'')]"

definition example_env :: recovery_env where
  "example_env =
     \<lparr>re_parser = example_parser, re_unescapeForFileName = id, re_placeholder = ''_'',
      re_backQuoteIfNeed = id, re_rng = (\<lambda>k. 1234567),
      re_interpreter = (\<lambda>c. Inr \<lparr>tbl_name = ast_table c, tbl_metadata = ast_storage c,
                                   tbl_is_dictionary = False, tbl_stores_data_on_disk = True,
                                   tbl_uuid = ast_uuid c\<rparr>),
      re_zookeeper = (\<lambda>i. \<lparr>mobs_table_names = [''t'', ''a''],
                            mobs_get = (\<lambda>p. (ZOK, if p = ''/db/metadata/t''
                                                   then ''UUID 7 ENGINE = ReplicatedMergeTree ORDER BY x''
                                                 else ''UUID 8 ENGINE = Log'')),
                            mobs_max_log_ptr = 5\<rparr>),
      re_set_result = ZOK, re_getDatabaseName = (\<lambda>k. ''db'')\<rparr>"

definition example_db :: database where
  "example_db = \<lparr>db_zookeeper_path = ''/db'', db_shard_name = ''s1'', db_replica_name = ''r1'',
                  db_replica_path = ''/db/replicas/s1|r1''\<rparr>"

definition example_table :: "string \<Rightarrow> string \<Rightarrow> UUID \<Rightarrow> local_table" where
  "example_table name metadata uuid =
     \<lparr>tbl_name = name, tbl_metadata = metadata, tbl_is_dictionary = False,
      tbl_stores_data_on_disk = True, tbl_uuid = uuid\<rparr>"

text \<open>A replica whose two tables are those of the snapshot, and one whose two tables both differ from it.\<close>

definition converged_replica :: replica_state where
  "converged_replica =
     \<lparr>rs_database_name = ''db'',
      rs_tables = [example_table ''a'' ''UUID 8 ENGINE = Log'' 8,
                   example_table ''t'' ''UUID 7 ENGINE = ReplicatedMergeTree ORDER BY x'' 7],
      rs_calls = []\<rparr>"

definition diverged_replica :: replica_state where
  "diverged_replica =
     \<lparr>rs_database_name = ''db'',
      rs_tables = [example_table ''a'' ''UUID 9 ENGINE = Memory'' 9,
                   example_table ''t'' ''UUID 6 ENGINE = MergeTree ORDER BY x'' 6],
      rs_calls = []\<rparr>"

section \<open>Theorems\<close>

subsection \<open>C10: path normalisation\<close>

text \<open>
  C10, as stated, fails: the argument \<^verbatim>\<open>"a//"\<close> passes the constructor's checks, one
  trailing \<open>/\<close> is stripped, \<open>/\<close> is prepended, and the stored path \<^verbatim>\<open>"/a/"\<close> still ends
  with \<open>/\<close>.
\<close>

theorem C10_counterexample:
  "check_arguments ''a//'' ''s'' ''r'' = Inr ()
   \<and> normalize_zookeeper_path ''a//'' = Inr ''/a/''
   \<and> \<not> well_formed_path ''/a/''"
  by (simp add: check_arguments_def normalize_zookeeper_path_def well_formed_path_def
      find_str_def)

text \<open>
  C10, amended: for every path argument that passes the constructor's checks and is not
  the single character \<open>/\<close>, the normalisation is defined and the stored path is non-empty
  and begins with \<open>/\<close>; it ends with \<open>/\<close> exactly when the argument ends with two slashes
  (only one trailing \<open>/\<close> is stripped), so otherwise it is well formed.
\<close>

theorem C10_normalized_path:
  assumes "check_arguments zookeeper_path shard_name replica_name = Inr ()"
    and "zookeeper_path \<noteq> ''/''"
  shows "\<exists>p. normalize_zookeeper_path zookeeper_path = Inr p
           \<and> p \<noteq> [] \<and> hd p = CHR ''/''
           \<and> (last p = CHR ''/'' \<longleftrightarrow> ends_with_two_slashes zookeeper_path)
           \<and> (\<not> ends_with_two_slashes zookeeper_path \<longrightarrow> well_formed_path p)"
proof -
  from assms(1) have ne: "zookeeper_path \<noteq> []"
    by (auto simp: check_arguments_def split: if_splits)
  then obtain xs x where zp: "zookeeper_path = xs @ [x]"
    by (metis rev_exhaust)
  show ?thesis
  proof (cases "x = CHR ''/''")
    case False
    then have two: "\<not> ends_with_two_slashes zookeeper_path"
      by (auto simp: ends_with_two_slashes_def zp)
    from False show ?thesis
      using two by (auto simp: normalize_zookeeper_path_def zp well_formed_path_def hd_append Let_def)
  next
    case True
    with assms(2) zp have xs_ne: "xs \<noteq> []" by auto
    then obtain ys y where xs: "xs = ys @ [y]"
      by (metis rev_exhaust)
    have two: "ends_with_two_slashes zookeeper_path \<longleftrightarrow> y = CHR ''/''"
      by (auto simp: ends_with_two_slashes_def zp xs True)
    show ?thesis
      using True xs_ne two
      by (auto simp: normalize_zookeeper_path_def zp xs well_formed_path_def hd_append Let_def)
  qed
qed

theorem C10_normalized_path_witness:
  "check_arguments ''clickhouse/db1/'' ''s1'' ''r1'' = Inr ()
   \<and> normalize_zookeeper_path ''clickhouse/db1/'' = Inr ''/clickhouse/db1''
   \<and> well_formed_path ''/clickhouse/db1''"
  using C10_normalized_path [of "''clickhouse/db1/''" "''s1''" "''r1''"]
  by (simp add: check_arguments_def normalize_zookeeper_path_def well_formed_path_def
      find_str_def ends_with_two_slashes_def)

subsection \<open>C4: the bootstrap multi-op\<close>

lemma createDatabaseNodes_calls:
  "createAncestors_result env = ZOK \<Longrightarrow>
   fst (createDatabaseNodesInZooKeeper env zookeeper_path)
     = [CreateAncestors zookeeper_path, TryMulti (createDatabaseNodes_ops zookeeper_path)]"
  by (simp add: createDatabaseNodesInZooKeeper_def Let_def)

lemma createDatabaseNodes_result:
  "createAncestors_result env = ZOK \<Longrightarrow>
   snd (createDatabaseNodesInZooKeeper env zookeeper_path)
     = (if tryMulti_result env = ZOK then Inr True
        else if tryMulti_result env = ZNODEEXISTS then Inr False
        else Inl (KEEPER_EXCEPTION (tryMulti_result env)))"
  by (simp add: createDatabaseNodesInZooKeeper_def Let_def)

text \<open>
  C4, as stated, fails: the child \<^verbatim>\<open>cnt-\<close> of \<open>counter\<close> is created in mode
  \<^verbatim>\<open>Persistent\<close> (line 214), and no request of the multi-op is ephemeral-sequential.
\<close>

theorem C4_counterexample:
  "filter (is_create_with_mode EphemeralSequential) (createDatabaseNodes_ops ''/db'') = []
   \<and> createDatabaseNodes_ops ''/db'' ! 4 = CreateRequest ''/db/counter/cnt-'' [] Persistent
   \<and> fst (createDatabaseNodesInZooKeeper
        \<lparr>has_zookeeper = True, exists_root = False, createAncestors_result = ZOK,
         tryMulti_result = ZOK, tryGet_replica = None, create_counter = Inr ''/db/counter/cnt-0000000001'',
         multi_result = ZOK\<rparr> ''/db'')
       = [CreateAncestors ''/db'', TryMulti (createDatabaseNodes_ops ''/db'')]"
  by (simp add: createDatabaseNodes_ops_def createDatabaseNodesInZooKeeper_def)

lemma createDatabaseNodes_ops_shape:
  "map request_path (filter (is_create_with_mode Persistent) (createDatabaseNodes_ops zookeeper_path))
     = [zookeeper_path, zookeeper_path @ ''/log'', zookeeper_path @ ''/replicas'',
        zookeeper_path @ ''/counter'', zookeeper_path @ ''/counter/cnt-'',
        zookeeper_path @ ''/metadata'', zookeeper_path @ ''/max_log_ptr'',
        zookeeper_path @ ''/logs_to_keep'']"
  "filter (\<lambda>r. \<not> is_create_with_mode Persistent r) (createDatabaseNodes_ops zookeeper_path)
     = [RemoveRequest (zookeeper_path @ ''/counter/cnt-'') (- 1)]"
  "createDatabaseNodes_ops zookeeper_path ! 4
     = CreateRequest (zookeeper_path @ ''/counter/cnt-'') [] Persistent"
  "createDatabaseNodes_ops zookeeper_path ! 5
     = RemoveRequest (zookeeper_path @ ''/counter/cnt-'') (- 1)"
  "createDatabaseNodes_ops zookeeper_path ! 7
     = CreateRequest (zookeeper_path @ ''/max_log_ptr'') ''1'' Persistent"
  "createDatabaseNodes_ops zookeeper_path ! 8
     = CreateRequest (zookeeper_path @ ''/logs_to_keep'') ''1000'' Persistent"
  by (simp_all add: createDatabaseNodes_ops_def)

text \<open>
  C4, amended: after \<^verbatim>\<open>createAncestors\<close>, createDatabaseNodesInZooKeeper issues a single
  multi-op. Its creations, all persistent, are in this order the root, \<open>log\<close>, \<open>replicas\<close>,
  \<open>counter\<close>, the child \<open>cnt-\<close> of \<open>counter\<close>, \<open>metadata\<close>, \<open>max_log_ptr\<close> and
  \<open>logs_to_keep\<close>; its only other request removes \<open>counter/cnt-\<close> (any version) right
  after creating it; \<open>max_log_ptr\<close> holds \<open>1\<close> and \<open>logs_to_keep\<close> holds \<open>1000\<close>.
  \<open>ZOK\<close> returns true, \<open>ZNODEEXISTS\<close> returns false, and every other code is raised.
\<close>

theorem C4_bootstrap_multi_op:
  assumes "createAncestors_result env = ZOK"
  shows "filter is_multi_call (fst (createDatabaseNodesInZooKeeper env zookeeper_path))
           = [TryMulti (createDatabaseNodes_ops zookeeper_path)]
    \<and> map request_path (filter (is_create_with_mode Persistent) (createDatabaseNodes_ops zookeeper_path))
           = [zookeeper_path, zookeeper_path @ ''/log'', zookeeper_path @ ''/replicas'',
              zookeeper_path @ ''/counter'', zookeeper_path @ ''/counter/cnt-'',
              zookeeper_path @ ''/metadata'', zookeeper_path @ ''/max_log_ptr'',
              zookeeper_path @ ''/logs_to_keep'']
    \<and> filter (\<lambda>r. \<not> is_create_with_mode Persistent r) (createDatabaseNodes_ops zookeeper_path)
           = [RemoveRequest (zookeeper_path @ ''/counter/cnt-'') (- 1)]
    \<and> createDatabaseNodes_ops zookeeper_path ! 4
           = CreateRequest (zookeeper_path @ ''/counter/cnt-'') [] Persistent
    \<and> createDatabaseNodes_ops zookeeper_path ! 5
           = RemoveRequest (zookeeper_path @ ''/counter/cnt-'') (- 1)
    \<and> createDatabaseNodes_ops zookeeper_path ! 7
           = CreateRequest (zookeeper_path @ ''/max_log_ptr'') ''1'' Persistent
    \<and> createDatabaseNodes_ops zookeeper_path ! 8
           = CreateRequest (zookeeper_path @ ''/logs_to_keep'') ''1000'' Persistent
    \<and> snd (createDatabaseNodesInZooKeeper env zookeeper_path)
           = (if tryMulti_result env = ZOK then Inr True
              else if tryMulti_result env = ZNODEEXISTS then Inr False
              else Inl (KEEPER_EXCEPTION (tryMulti_result env)))"
  unfolding createDatabaseNodes_ops_shape
  using assms by (simp add: createDatabaseNodes_calls createDatabaseNodes_result)

theorem C4_bootstrap_multi_op_witness:
  "filter is_multi_call (fst (createDatabaseNodesInZooKeeper
        \<lparr>has_zookeeper = True, exists_root = False, createAncestors_result = ZOK,
         tryMulti_result = ZNODEEXISTS, tryGet_replica = None,
         create_counter = Inr ''/db/counter/cnt-0000000001'', multi_result = ZOK\<rparr> ''/db''))
     = [TryMulti (createDatabaseNodes_ops ''/db'')]
   \<and> snd (createDatabaseNodesInZooKeeper
        \<lparr>has_zookeeper = True, exists_root = False, createAncestors_result = ZOK,
         tryMulti_result = ZNODEEXISTS, tryGet_replica = None,
         create_counter = Inr ''/db/counter/cnt-0000000001'', multi_result = ZOK\<rparr> ''/db'')
     = Inr False"
  using C4_bootstrap_multi_op [of "\<lparr>has_zookeeper = True, exists_root = False,
         createAncestors_result = ZOK, tryMulti_result = ZNODEEXISTS, tryGet_replica = None,
         create_counter = Inr ''/db/counter/cnt-0000000001'', multi_result = ZOK\<rparr>" "''/db''"]
  by simp


subsection \<open>C5: an existing replica node\<close>

text \<open>The constructor up to the lookup of the replica node: the bootstrap did not raise.\<close>

lemma ctor_replica_exists:
  assumes "check_arguments zookeeper_path0 shard_name replica_name = Inr ()"
    and "normalize_zookeeper_path zookeeper_path0 = Inr zookeeper_path"
    and "has_zookeeper env"
    and "exists_root env \<or> (createAncestors_result env = ZOK \<and> tryMulti_result env \<in> {ZOK, ZNODEEXISTS})"
    and "tryGet_replica env = Some replica_host_id"
  shows "snd (DatabaseReplicated_ctor env zookeeper_path0 shard_name replica_name address db_uuid log_entry)
           = (if replica_host_id \<noteq> getHostID address db_uuid then Inl REPLICA_IS_ALREADY_EXIST
              else Inr \<lparr>db_zookeeper_path = zookeeper_path, db_shard_name = shard_name,
                        db_replica_name = replica_name,
                        db_replica_path = zookeeper_path @ ''/replicas/'' @ shard_name @ ''|'' @ replica_name\<rparr>)"
    and "filter creates_replica_nodes
           (fst (DatabaseReplicated_ctor env zookeeper_path0 shard_name replica_name address db_uuid log_entry)) = []"
  using assms
  by (auto simp: DatabaseReplicated_ctor_def createDatabaseNodesInZooKeeper_def Let_def
      getFullReplicaName_def)

text \<open>
  C5: when the arguments are valid, the store is available, the bootstrap did not raise
  and the replica node \<open>/replicas/shard|replica\<close> exists, the constructor returns the
  database without any call that creates replica nodes if the node's value equals this
  process's host-id, and raises \<open>REPLICA_IS_ALREADY_EXIST\<close> (again without creating
  replica nodes) if the value differs.
\<close>

theorem C5_existing_replica_node:
  assumes "check_arguments zookeeper_path0 shard_name replica_name = Inr ()"
    and "normalize_zookeeper_path zookeeper_path0 = Inr zookeeper_path"
    and "has_zookeeper env"
    and "exists_root env \<or> (createAncestors_result env = ZOK \<and> tryMulti_result env \<in> {ZOK, ZNODEEXISTS})"
    and "tryGet_replica env = Some replica_host_id"
  shows "(replica_host_id = getHostID address db_uuid \<longrightarrow>
            snd (DatabaseReplicated_ctor env zookeeper_path0 shard_name replica_name address db_uuid log_entry)
              = Inr \<lparr>db_zookeeper_path = zookeeper_path, db_shard_name = shard_name,
                     db_replica_name = replica_name,
                     db_replica_path = zookeeper_path @ ''/replicas/'' @ shard_name @ ''|'' @ replica_name\<rparr>)
       \<and> (replica_host_id \<noteq> getHostID address db_uuid \<longrightarrow>
            snd (DatabaseReplicated_ctor env zookeeper_path0 shard_name replica_name address db_uuid log_entry)
              = Inl REPLICA_IS_ALREADY_EXIST)
       \<and> filter creates_replica_nodes
            (fst (DatabaseReplicated_ctor env zookeeper_path0 shard_name replica_name address db_uuid log_entry)) = []"
  using ctor_replica_exists [OF assms, of address db_uuid log_entry] by simp

theorem C5_existing_replica_node_witness:
  "snd (DatabaseReplicated_ctor
      \<lparr>has_zookeeper = True, exists_root = True, createAncestors_result = ZOK,
       tryMulti_result = ZOK, tryGet_replica = Some ''h1:9000:uuid-X'',
       create_counter = Inr ''/db1/counter/cnt-0000000002'', multi_result = ZOK\<rparr>
      ''/db1'' ''s1'' ''r1'' ''h1:9000'' ''uuid-X'' [])
     = Inr \<lparr>db_zookeeper_path = ''/db1'', db_shard_name = ''s1'', db_replica_name = ''r1'',
            db_replica_path = ''/db1/replicas/s1|r1''\<rparr>
   \<and> snd (DatabaseReplicated_ctor
      \<lparr>has_zookeeper = True, exists_root = True, createAncestors_result = ZOK,
       tryMulti_result = ZOK, tryGet_replica = Some ''h1:9000:uuid-X'',
       create_counter = Inr ''/db1/counter/cnt-0000000002'', multi_result = ZOK\<rparr>
      ''/db1'' ''s1'' ''r1'' ''h2:9000'' ''uuid-Y'' [])
     = Inl REPLICA_IS_ALREADY_EXIST"
  using
    C5_existing_replica_node [of "''/db1''" "''s1''" "''r1''" "''/db1''"
      "\<lparr>has_zookeeper = True, exists_root = True, createAncestors_result = ZOK,
        tryMulti_result = ZOK, tryGet_replica = Some ''h1:9000:uuid-X'',
        create_counter = Inr ''/db1/counter/cnt-0000000002'', multi_result = ZOK\<rparr>"
      "''h1:9000:uuid-X''" "''h1:9000''" "''uuid-X''" "[]"]
    C5_existing_replica_node [of "''/db1''" "''s1''" "''r1''" "''/db1''"
      "\<lparr>has_zookeeper = True, exists_root = True, createAncestors_result = ZOK,
        tryMulti_result = ZOK, tryGet_replica = Some ''h1:9000:uuid-X'',
        create_counter = Inr ''/db1/counter/cnt-0000000002'', multi_result = ZOK\<rparr>"
      "''h1:9000:uuid-X''" "''h2:9000''" "''uuid-Y''" "[]"]
  by (simp add: check_arguments_def normalize_zookeeper_path_def find_str_def getHostID_def)


subsection \<open>C7: the preconditions of renameTable\<close>

lemma renameTable_queues_only_when_valid:
  assumes "renameTable this readMetadataFile escapeForFileName (Some txn) table_name to_database
             to_table_name exchange dictionary = (Some txn', r)"
    and "is_initial_query txn" and "txn_ops txn' \<noteq> txn_ops txn"
  shows "db_address this = db_address to_database \<and> table_name \<noteq> to_table_name
         \<and> isTableExist this table_name
         \<and> (exchange \<longrightarrow> isTableExist to_database to_table_name)"
  using assms
  by (auto simp: renameTable_def Let_def split: if_splits sum.splits)

text \<open>
  C7: on an initial query renameTable checks the preconditions in the order of the
  source, and the first one that fails decides the error: \<open>NOT_IMPLEMENTED\<close> if the
  target database is another object; else \<open>INCORRECT_QUERY\<close> if the two names are equal;
  else \<open>UNKNOWN_TABLE\<close> if the source table does not exist; else \<open>UNKNOWN_TABLE\<close> if an
  exchange is requested and the target table does not exist. In each of these cases the
  transaction is left as it was, with no operation queued; and whenever the call queues
  an operation, all four preconditions hold.
\<close>

theorem C7_rename_preconditions:
  assumes "is_initial_query txn"
  shows "(db_address this \<noteq> db_address to_database \<longrightarrow>
            renameTable this readMetadataFile escapeForFileName (Some txn) table_name to_database
              to_table_name exchange dictionary = (Some txn, Inl NOT_IMPLEMENTED))
       \<and> (db_address this = db_address to_database \<and> table_name = to_table_name \<longrightarrow>
            renameTable this readMetadataFile escapeForFileName (Some txn) table_name to_database
              to_table_name exchange dictionary = (Some txn, Inl INCORRECT_QUERY))
       \<and> (db_address this = db_address to_database \<and> table_name \<noteq> to_table_name
            \<and> \<not> isTableExist this table_name \<longrightarrow>
            renameTable this readMetadataFile escapeForFileName (Some txn) table_name to_database
              to_table_name exchange dictionary = (Some txn, Inl UNKNOWN_TABLE))
       \<and> (db_address this = db_address to_database \<and> table_name \<noteq> to_table_name
            \<and> isTableExist this table_name
            \<and> exchange \<and> \<not> isTableExist to_database to_table_name \<longrightarrow>
            renameTable this readMetadataFile escapeForFileName (Some txn) table_name to_database
              to_table_name exchange dictionary = (Some txn, Inl UNKNOWN_TABLE))
       \<and> (\<forall>txn' r. renameTable this readMetadataFile escapeForFileName (Some txn) table_name
                       to_database to_table_name exchange dictionary = (Some txn', r)
                     \<and> txn_ops txn' \<noteq> txn_ops txn \<longrightarrow>
              db_address this = db_address to_database \<and> table_name \<noteq> to_table_name
              \<and> isTableExist this table_name
              \<and> (exchange \<longrightarrow> isTableExist to_database to_table_name))"
proof (intro conjI allI impI)
  fix txn' r
  assume "renameTable this readMetadataFile escapeForFileName (Some txn) table_name
            to_database to_table_name exchange dictionary = (Some txn', r)
          \<and> txn_ops txn' \<noteq> txn_ops txn"
  then have valid: "db_address this = db_address to_database \<and> table_name \<noteq> to_table_name
         \<and> isTableExist this table_name
         \<and> (exchange \<longrightarrow> isTableExist to_database to_table_name)"
    using renameTable_queues_only_when_valid [OF _ assms] by blast
  from valid show "db_address this = db_address to_database" by simp
  from valid show "table_name \<noteq> to_table_name" by simp
  from valid show "isTableExist this table_name" by simp
  assume exchange
  with valid show "isTableExist to_database to_table_name" by simp
qed (use assms in \<open>simp_all add: renameTable_def\<close>)


theorem C7_rename_preconditions_witness:
  "renameTable \<lparr>db_address = 1, isTableExist = (\<lambda>n. n = ''t'')\<rparr> (\<lambda>n. Inr ''CREATE'') id
       (Some \<lparr>is_initial_query = True, txn_zookeeper_path = ''/db'', txn_ops = []\<rparr>)
       ''t'' \<lparr>db_address = 2, isTableExist = (\<lambda>n. False)\<rparr> ''u'' False False
     = (Some \<lparr>is_initial_query = True, txn_zookeeper_path = ''/db'', txn_ops = []\<rparr>,
        Inl NOT_IMPLEMENTED)
   \<and> renameTable \<lparr>db_address = 1, isTableExist = (\<lambda>n. n = ''t'')\<rparr> (\<lambda>n. Inr ''CREATE'') id
       (Some \<lparr>is_initial_query = True, txn_zookeeper_path = ''/db'', txn_ops = []\<rparr>)
       ''t'' \<lparr>db_address = 1, isTableExist = (\<lambda>n. n = ''t'')\<rparr> ''t'' False False
     = (Some \<lparr>is_initial_query = True, txn_zookeeper_path = ''/db'', txn_ops = []\<rparr>,
        Inl INCORRECT_QUERY)
   \<and> renameTable \<lparr>db_address = 1, isTableExist = (\<lambda>n. n = ''t'')\<rparr> (\<lambda>n. Inr ''CREATE'') id
       (Some \<lparr>is_initial_query = True, txn_zookeeper_path = ''/db'', txn_ops = []\<rparr>)
       ''x'' \<lparr>db_address = 1, isTableExist = (\<lambda>n. n = ''t'')\<rparr> ''u'' False False
     = (Some \<lparr>is_initial_query = True, txn_zookeeper_path = ''/db'', txn_ops = []\<rparr>,
        Inl UNKNOWN_TABLE)
   \<and> renameTable \<lparr>db_address = 1, isTableExist = (\<lambda>n. n = ''t'')\<rparr> (\<lambda>n. Inr ''CREATE'') id
       (Some \<lparr>is_initial_query = True, txn_zookeeper_path = ''/db'', txn_ops = []\<rparr>)
       ''t'' \<lparr>db_address = 1, isTableExist = (\<lambda>n. n = ''t'')\<rparr> ''u'' True False
     = (Some \<lparr>is_initial_query = True, txn_zookeeper_path = ''/db'', txn_ops = []\<rparr>,
        Inl UNKNOWN_TABLE)"
  using
    C7_rename_preconditions [of "\<lparr>is_initial_query = True, txn_zookeeper_path = ''/db'', txn_ops = []\<rparr>"
      "\<lparr>db_address = 1, isTableExist = (\<lambda>n. n = ''t'')\<rparr>"
      "\<lparr>db_address = 2, isTableExist = (\<lambda>n. False)\<rparr>" "\<lambda>n. Inr ''CREATE''" id "''t''" "''u''" False False]
    C7_rename_preconditions [of "\<lparr>is_initial_query = True, txn_zookeeper_path = ''/db'', txn_ops = []\<rparr>"
      "\<lparr>db_address = 1, isTableExist = (\<lambda>n. n = ''t'')\<rparr>"
      "\<lparr>db_address = 1, isTableExist = (\<lambda>n. n = ''t'')\<rparr>" "\<lambda>n. Inr ''CREATE''" id "''t''" "''t''" False False]
    C7_rename_preconditions [of "\<lparr>is_initial_query = True, txn_zookeeper_path = ''/db'', txn_ops = []\<rparr>"
      "\<lparr>db_address = 1, isTableExist = (\<lambda>n. n = ''t'')\<rparr>"
      "\<lparr>db_address = 1, isTableExist = (\<lambda>n. n = ''t'')\<rparr>" "\<lambda>n. Inr ''CREATE''" id "''x''" "''u''" False False]
    C7_rename_preconditions [of "\<lparr>is_initial_query = True, txn_zookeeper_path = ''/db'', txn_ops = []\<rparr>"
      "\<lparr>db_address = 1, isTableExist = (\<lambda>n. n = ''t'')\<rparr>"
      "\<lparr>db_address = 1, isTableExist = (\<lambda>n. n = ''t'')\<rparr>" "\<lambda>n. Inr ''CREATE''" id "''t''" "''u''" True False]
  by simp

subsection \<open>C8: parseQueryFromMetadataInZooKeeper\<close>

text \<open>
  C8, as stated, fails: when the stored text does not parse, the exception of the parser
  (a syntax error) leaves the function, not \<open>LOGICAL_ERROR\<close>.
\<close>

theorem C8_counterexample:
  "parseQueryFromMetadataInZooKeeper (\<lambda>q. Inl SYNTAX_ERROR) id ''_'' ''db'' ''t'' ''not a query''
     = Inl SYNTAX_ERROR
   \<and> parseQueryFromMetadataInZooKeeper (\<lambda>q. Inl SYNTAX_ERROR) id ''_'' ''db'' ''t'' ''not a query''
     \<noteq> Inl LOGICAL_ERROR"
  by (simp add: parseQueryFromMetadataInZooKeeper_def)

text \<open>
  C8, amended: parseQueryFromMetadataInZooKeeper raises the parser's exception when the
  stored text does not parse; it raises \<open>LOGICAL_ERROR\<close> when the text parses to a CREATE
  whose UUID is Nil, or whose table is not the UUID name placeholder, or whose database
  is not empty; otherwise it returns that CREATE with the database set to this database's
  name, the table set to the unescaped node name and the attach flag cleared, the UUID
  and the rest of the statement as parsed.
\<close>

theorem C8_parse_metadata_query:
  "(parser query = Inl e \<longrightarrow>
      parseQueryFromMetadataInZooKeeper parser unescapeForFileName placeholder database_name node_name query
        = Inl e)
   \<and> (parser query = Inr create
        \<and> (ast_uuid create = UUIDHelpers_Nil \<or> ast_table create \<noteq> placeholder
             \<or> ast_database create \<noteq> []) \<longrightarrow>
      parseQueryFromMetadataInZooKeeper parser unescapeForFileName placeholder database_name node_name query
        = Inl LOGICAL_ERROR)
   \<and> (parser query = Inr create
        \<and> ast_uuid create \<noteq> UUIDHelpers_Nil \<and> ast_table create = placeholder
        \<and> ast_database create = [] \<longrightarrow>
      parseQueryFromMetadataInZooKeeper parser unescapeForFileName placeholder database_name node_name query
        = Inr \<lparr>ast_uuid = ast_uuid create, ast_database = database_name,
               ast_table = unescapeForFileName node_name, ast_attach = False,
               ast_storage = ast_storage create\<rparr>)"
  by (auto simp: parseQueryFromMetadataInZooKeeper_def)

theorem C8_parse_metadata_query_witness:
  "parseQueryFromMetadataInZooKeeper
       (\<lambda>q. Inr \<lparr>ast_uuid = 7, ast_database = [], ast_table = ''_'', ast_attach = True,
                  ast_storage = ''(x Int32) ENGINE = Log''\<rparr>)
       id ''_'' ''db'' ''t'' ''ATTACH TABLE _ UUID 7 (x Int32) ENGINE = Log''
     = Inr \<lparr>ast_uuid = 7, ast_database = ''db'', ast_table = ''t'', ast_attach = False,
            ast_storage = ''(x Int32) ENGINE = Log''\<rparr>
   \<and> parseQueryFromMetadataInZooKeeper
       (\<lambda>q. Inr \<lparr>ast_uuid = 0, ast_database = [], ast_table = ''_'', ast_attach = True,
                  ast_storage = ''(x Int32) ENGINE = Log''\<rparr>)
       id ''_'' ''db'' ''t'' ''ATTACH TABLE _ (x Int32) ENGINE = Log''
     = Inl LOGICAL_ERROR"
  using
    C8_parse_metadata_query [of
      "\<lambda>q. Inr \<lparr>ast_uuid = 7, ast_database = [], ast_table = ''_'', ast_attach = True,
                 ast_storage = ''(x Int32) ENGINE = Log''\<rparr>"
      "''ATTACH TABLE _ UUID 7 (x Int32) ENGINE = Log''" SYNTAX_ERROR id "''_''" "''db''" "''t''"
      "\<lparr>ast_uuid = 7, ast_database = [], ast_table = ''_'', ast_attach = True,
        ast_storage = ''(x Int32) ENGINE = Log''\<rparr>"]
    C8_parse_metadata_query [of
      "\<lambda>q. Inr \<lparr>ast_uuid = 0, ast_database = [], ast_table = ''_'', ast_attach = True,
                 ast_storage = ''(x Int32) ENGINE = Log''\<rparr>"
      "''ATTACH TABLE _ (x Int32) ENGINE = Log''" SYNTAX_ERROR id "''_''" "''db''" "''t''"
      "\<lparr>ast_uuid = 0, ast_database = [], ast_table = ''_'', ast_attach = True,
        ast_storage = ''(x Int32) ENGINE = Log''\<rparr>"]
  by (simp add: UUIDHelpers_Nil_def)



subsection \<open>The retry loop and the grouping of getCluster\<close>

text \<open>The four ways one pass through the loop of lines 144--172 ends.\<close>

lemma getCluster_loop_exit:
  "\<not> iteration + 1 \<le> max_retries \<Longrightarrow>
   getCluster_loop zookeeper zookeeper_path iteration hosts host_ids success
     = Inr (hosts, host_ids, success)"
  by (subst getCluster_loop.simps) simp

lemma getCluster_loop_no_hosts:
  "iteration + 1 \<le> max_retries \<Longrightarrow> obs_children (zookeeper (iteration + 1)) = [] \<Longrightarrow>
   getCluster_loop zookeeper zookeeper_path iteration hosts host_ids success = Inl LOGICAL_ERROR"
  by (subst getCluster_loop.simps) simp

lemma getCluster_loop_break:
  "iteration + 1 \<le> max_retries \<Longrightarrow> obs_children (zookeeper (iteration + 1)) \<noteq> [] \<Longrightarrow>
   list_all (\<lambda>host. fst (obs_get (zookeeper (iteration + 1)) (zookeeper_path @ ''/replicas/'' @ host)) = ZOK)
      (sort (obs_children (zookeeper (iteration + 1)))) \<Longrightarrow>
   stat_cversion (obs_stat (zookeeper (iteration + 1)))
      = stat_version (obs_stat_after (zookeeper (iteration + 1))) \<Longrightarrow>
   getCluster_loop zookeeper zookeeper_path iteration hosts host_ids success
     = Inr (sort (obs_children (zookeeper (iteration + 1))),
            replica_values (zookeeper (iteration + 1)) zookeeper_path, True)"
  by (subst getCluster_loop.simps)
    (simp add: Let_def replica_values_def list_all_iff comp_def)

lemma getCluster_loop_retry:
  "iteration + 1 \<le> max_retries \<Longrightarrow> obs_children (zookeeper (iteration + 1)) \<noteq> [] \<Longrightarrow>
   \<not> (list_all (\<lambda>host. fst (obs_get (zookeeper (iteration + 1)) (zookeeper_path @ ''/replicas/'' @ host)) = ZOK)
        (sort (obs_children (zookeeper (iteration + 1))))
      \<and> stat_cversion (obs_stat (zookeeper (iteration + 1)))
          = stat_version (obs_stat_after (zookeeper (iteration + 1)))) \<Longrightarrow>
   getCluster_loop zookeeper zookeeper_path iteration hosts host_ids success
     = getCluster_loop zookeeper zookeeper_path (iteration + 1)
         (sort (obs_children (zookeeper (iteration + 1))))
         (replica_values (zookeeper (iteration + 1)) zookeeper_path)
         (list_all (\<lambda>host. fst (obs_get (zookeeper (iteration + 1)) (zookeeper_path @ ''/replicas/'' @ host)) = ZOK)
            (sort (obs_children (zookeeper (iteration + 1)))))"
  by (subst getCluster_loop.simps)
    (auto simp: Let_def replica_values_def list_all_iff comp_def)

lemma getCluster_loop_result:
  "getCluster_loop zookeeper zookeeper_path iteration hosts host_ids success = Inr (h, d, s) \<Longrightarrow>
     (h = hosts \<and> d = host_ids \<and> s = success)
     \<or> (\<exists>i. iteration < i \<and> i \<le> max_retries
              \<and> obs_children (zookeeper i) \<noteq> []
              \<and> h = sort (obs_children (zookeeper i))
              \<and> d = replica_values (zookeeper i) zookeeper_path)"
proof (induction "max_retries - iteration" arbitrary: iteration hosts host_ids success)
  case 0
  then have "\<not> iteration + 1 \<le> max_retries" by simp
  from getCluster_loop_exit [OF this] "0.prems" show ?case by simp
next
  case (Suc n)
  then have le: "iteration + 1 \<le> max_retries" by simp
  let ?obs = "zookeeper (iteration + 1)"
  have ne: "obs_children ?obs \<noteq> []"
    using getCluster_loop_no_hosts [of iteration zookeeper zookeeper_path hosts host_ids success] le Suc.prems by fastforce
  show ?case
  proof (cases "list_all (\<lambda>host. fst (obs_get ?obs (zookeeper_path @ ''/replicas/'' @ host)) = ZOK)
                  (sort (obs_children ?obs))
                \<and> stat_cversion (obs_stat ?obs) = stat_version (obs_stat_after ?obs)")
    case True
    then have "getCluster_loop zookeeper zookeeper_path iteration hosts host_ids success
                 = Inr (sort (obs_children ?obs), replica_values ?obs zookeeper_path, True)"
      using getCluster_loop_break [of iteration zookeeper zookeeper_path hosts host_ids success] le ne by blast
    with Suc.prems have "h = sort (obs_children ?obs) \<and> d = replica_values ?obs zookeeper_path"
      by simp
    with le ne show ?thesis
      by (intro disjI2 exI [of _ "iteration + 1"]) simp
  next
    case False
    from getCluster_loop_retry [of iteration zookeeper zookeeper_path hosts host_ids success] le ne False Suc.prems
    have rec: "getCluster_loop zookeeper zookeeper_path (iteration + 1)
                 (sort (obs_children ?obs)) (replica_values ?obs zookeeper_path)
                 (list_all (\<lambda>host. fst (obs_get ?obs (zookeeper_path @ ''/replicas/'' @ host)) = ZOK)
                    (sort (obs_children ?obs))) = Inr (h, d, s)"
      by simp
    have n: "n = max_retries - (iteration + 1)"
      using Suc.hyps(2) by simp
    from Suc.hyps(1) [OF n rec] show ?thesis
    proof
      assume "h = sort (obs_children ?obs) \<and> d = replica_values ?obs zookeeper_path
              \<and> s = list_all (\<lambda>host. fst (obs_get ?obs (zookeeper_path @ ''/replicas/'' @ host)) = ZOK)
                    (sort (obs_children ?obs))"
      with le ne show ?thesis
        by (intro disjI2 exI [of _ "iteration + 1"]) simp
    next
      assume "\<exists>i>iteration + 1. i \<le> max_retries \<and> obs_children (zookeeper i) \<noteq> []
                \<and> h = sort (obs_children (zookeeper i))
                \<and> d = replica_values (zookeeper i) zookeeper_path"
      then obtain i where "iteration + 1 < i" "i \<le> max_retries" "obs_children (zookeeper i) \<noteq> []"
        "h = sort (obs_children (zookeeper i))" "d = replica_values (zookeeper i) zookeeper_path"
        by blast
      then show ?thesis
        by (intro disjI2 exI [of _ i]) simp
    qed
  qed
qed

lemma group_shards_concat:
  "group_shards unescapeForFileName ps current_shard shards back_shard = Inr r \<Longrightarrow>
     concat r = concat shards @ back_shard
        @ map (\<lambda>id'. unescapeForFileName (host_of_id id'))
            (filter (\<lambda>id'. id' \<noteq> DROPPED_MARK) (map snd ps))"
proof (induction ps arbitrary: current_shard shards back_shard)
  case Nil
  then show ?case by auto
next
  case (Cons p ps)
  obtain host_name id' where p: "p = (host_name, id')" by (cases p)
  show ?case
  proof (cases "id' = DROPPED_MARK")
    case True
    with Cons.prems p have "group_shards unescapeForFileName ps current_shard shards back_shard = Inr r"
      by simp
    from Cons.IH [OF this] True p show ?thesis by simp
  next
    case False
    with Cons.prems p obtain shard replica where
      parsed: "parseFullReplicaName host_name = Inr (shard, replica)"
      by (auto split: sum.splits)
    show ?thesis
    proof (cases "shard \<noteq> current_shard \<and> back_shard \<noteq> []")
      case True
      with Cons.prems p False parsed
      have "group_shards unescapeForFileName ps shard (shards @ [back_shard])
              [unescapeForFileName (host_of_id id')] = Inr r"
        by simp
      from Cons.IH [OF this] False p show ?thesis by simp
    next
      case nb: False
      with Cons.prems p False parsed
      have "group_shards unescapeForFileName ps shard shards
              (back_shard @ [unescapeForFileName (host_of_id id')]) = Inr r"
        by auto
      from Cons.IH [OF this] False p show ?thesis by simp
    qed
  qed
qed

lemma length_replica_values:
  "length (replica_values obs zookeeper_path) = length (sort (obs_children obs))"
  by (simp add: replica_values_def)

lemma getCluster_hosts:
  assumes "getCluster zookeeper zookeeper_path unescapeForFileName = Inr shards"
  shows "\<exists>i. 1 \<le> i \<and> i \<le> max_retries
           \<and> concat shards
               = map (\<lambda>id'. unescapeForFileName (host_of_id id'))
                   (filter (\<lambda>id'. id' \<noteq> DROPPED_MARK) (replica_values (zookeeper i) zookeeper_path))"
proof -
  from assms obtain hosts host_ids where
    loop: "getCluster_loop zookeeper zookeeper_path 0 [] [] False = Inr (hosts, host_ids, True)"
    by (auto simp: getCluster_def split: sum.splits prod.splits if_splits)
  from getCluster_loop_result [OF loop] obtain i where
    i: "0 < i" "i \<le> max_retries" "hosts = sort (obs_children (zookeeper i))"
       "host_ids = replica_values (zookeeper i) zookeeper_path"
    by auto
  have len: "length hosts = length host_ids"
    using i by (simp add: length_replica_values)
  from assms loop obtain current_shard where
    grp: "group_shards unescapeForFileName (zip hosts host_ids) current_shard [] [] = Inr shards"
    by (auto simp: getCluster_def split: sum.splits prod.splits if_splits list.splits)
  from group_shards_concat [OF grp] len
  have "concat shards = map (\<lambda>id'. unescapeForFileName (host_of_id id'))
                   (filter (\<lambda>id'. id' \<noteq> DROPPED_MARK) host_ids)"
    by simp
  with i show ?thesis by (intro exI [of _ i]) simp
qed

lemma drop_replica_first_call:
  "\<exists>rest. fst (drop_replica env db) = Store (ZkSet (db_replica_path db) DROPPED_MARK) # rest"
  by (cases "atomic_drop_result env") (simp_all add: drop_replica_def Let_def)


subsection \<open>C3: the consistency check of getCluster\<close>

text \<open>
  C3 does not hold of the code. In the first store the child version of \<open>/replicas\<close>
  moves from 5 to 6 during every iteration while its data version stays 0: line 170
  compares the saved \<open>cversion\<close> with \<open>stat.version\<close>, the loop runs out after ten
  iterations with \<open>success\<close> still true, and line 173 lets the last, inconsistent
  snapshot through instead of raising \<open>ALL_CONNECTION_TRIES_FAILED\<close>. In the second
  store the data version happens to equal the saved child version, and the first
  iteration is accepted although the child version moved.
\<close>

theorem C3_inconsistent_snapshot_returned:
  "(\<forall>i. \<not> consistent_obs
          \<lparr>obs_children = [''s1|r1''], obs_stat = \<lparr>stat_version = 0, stat_cversion = 5\<rparr>,
           obs_get = (\<lambda>p. (ZOK, ''h1:9000:u'')),
           obs_stat_after = \<lparr>stat_version = 0, stat_cversion = 6\<rparr>\<rparr> ''/db'')
   \<and> getCluster
        (\<lambda>i. \<lparr>obs_children = [''s1|r1''], obs_stat = \<lparr>stat_version = 0, stat_cversion = 5\<rparr>,
              obs_get = (\<lambda>p. (ZOK, ''h1:9000:u'')),
              obs_stat_after = \<lparr>stat_version = 0, stat_cversion = 6\<rparr>\<rparr>) ''/db'' id
       = Inr [[''h1'']]
   \<and> \<not> consistent_obs
          \<lparr>obs_children = [''s1|r1''], obs_stat = \<lparr>stat_version = 5, stat_cversion = 5\<rparr>,
           obs_get = (\<lambda>p. (ZOK, ''h1:9000:u'')),
           obs_stat_after = \<lparr>stat_version = 5, stat_cversion = 6\<rparr>\<rparr> ''/db''
   \<and> getCluster
        (\<lambda>i. \<lparr>obs_children = [''s1|r1''], obs_stat = \<lparr>stat_version = 5, stat_cversion = 5\<rparr>,
              obs_get = (\<lambda>p. (ZOK, ''h1:9000:u'')),
              obs_stat_after = \<lparr>stat_version = 5, stat_cversion = 6\<rparr>\<rparr>) ''/db'' id
       = Inr [[''h1'']]"
  by (simp add: consistent_obs_def getCluster_def getCluster_loop.simps max_retries_def
      parseFullReplicaName_def find_str_def find_str_at_def host_of_id_def DROPPED_MARK_def)

subsection \<open>C9: dropped replicas\<close>

text \<open>
  C9: whatever the store answers, the hosts of a cluster that getCluster returns are, in
  order, the hosts of the replica node values read in one iteration, the values equal to
  the \<open>DROPPED\<close> sentinel left out: no replica whose node holds the sentinel contributes
  a host. And whatever the store answers, the first call of \<open>drop\<close> sets the replica node
  to the sentinel; the local drop and the removals from the store come after it.
\<close>

theorem C9_dropped_replicas_invisible:
  "(getCluster zookeeper zookeeper_path unescapeForFileName = Inr shards \<longrightarrow>
      (\<exists>i. 1 \<le> i \<and> i \<le> max_retries
         \<and> concat shards
             = map (\<lambda>id'. unescapeForFileName (host_of_id id'))
                 (filter (\<lambda>id'. id' \<noteq> DROPPED_MARK) (replica_values (zookeeper i) zookeeper_path))))
   \<and> (\<exists>rest. fst (drop_replica env db) = Store (ZkSet (db_replica_path db) DROPPED_MARK) # rest)
   \<and> \<not> is_removal (Store (ZkSet (db_replica_path db) DROPPED_MARK))"
  using getCluster_hosts [of zookeeper zookeeper_path unescapeForFileName shards]
    drop_replica_first_call [of env db]
  by simp

theorem C9_dropped_replicas_invisible_witness:
  "getCluster
      (\<lambda>i. \<lparr>obs_children = [''s1|r2'', ''s1|r1''], obs_stat = \<lparr>stat_version = 3, stat_cversion = 3\<rparr>,
            obs_get = (\<lambda>p. if p = ''/db/replicas/s1|r1'' then (ZOK, ''DROPPED'')
                            else (ZOK, ''h2:9000:u'')),
            obs_stat_after = \<lparr>stat_version = 3, stat_cversion = 3\<rparr>\<rparr>) ''/db'' id
     = Inr [[''h2'']]
   \<and> replica_values
        \<lparr>obs_children = [''s1|r2'', ''s1|r1''], obs_stat = \<lparr>stat_version = 3, stat_cversion = 3\<rparr>,
         obs_get = (\<lambda>p. if p = ''/db/replicas/s1|r1'' then (ZOK, ''DROPPED'')
                         else (ZOK, ''h2:9000:u'')),
         obs_stat_after = \<lparr>stat_version = 3, stat_cversion = 3\<rparr>\<rparr> ''/db''
     = [''DROPPED'', ''h2:9000:u'']
   \<and> fst (drop_replica \<lparr>set_result = ZOK, atomic_drop_result = None, tryRemove_result = ZNOTEMPTY\<rparr>
        \<lparr>db_zookeeper_path = ''/db'', db_shard_name = ''s1'', db_replica_name = ''r1'',
         db_replica_path = ''/db/replicas/s1|r1''\<rparr>)
     = [Store (ZkSet ''/db/replicas/s1|r1'' ''DROPPED''), LocalDrop,
        Store (TryRemoveRecursive ''/db/replicas/s1|r1''), Store (TryRemove ''/db/replicas'')]"
  using C9_dropped_replicas_invisible [of
      "\<lambda>i. \<lparr>obs_children = [''s1|r2'', ''s1|r1''], obs_stat = \<lparr>stat_version = 3, stat_cversion = 3\<rparr>,
            obs_get = (\<lambda>p. if p = ''/db/replicas/s1|r1'' then (ZOK, ''DROPPED'')
                            else (ZOK, ''h2:9000:u'')),
            obs_stat_after = \<lparr>stat_version = 3, stat_cversion = 3\<rparr>\<rparr>"
      "''/db''" id "[[''h2'']]"
      "\<lparr>set_result = ZOK, atomic_drop_result = None, tryRemove_result = ZNOTEMPTY\<rparr>"
      "\<lparr>db_zookeeper_path = ''/db'', db_shard_name = ''s1'', db_replica_name = ''r1'',
        db_replica_path = ''/db/replicas/s1|r1''\<rparr>"]
  by (simp add: getCluster_def getCluster_loop.simps max_retries_def replica_values_def
      parseFullReplicaName_def find_str_def find_str_at_def host_of_id_def DROPPED_MARK_def
      drop_replica_def)


subsection \<open>The phases of recoverLostReplica\<close>

lemma reconcile_tables_result:
  "reconcile_tables parser table_name_to_metadata existing tables_to_detach0 total_tables0
     = Inr (tables_to_detach, total_tables) \<Longrightarrow>
   tables_to_detach
     = tables_to_detach0
       @ map tbl_name
           (filter (\<lambda>t. should_detach parser table_name_to_metadata (tbl_name t) (tbl_metadata t) = Inr True)
              existing)
   \<and> total_tables = total_tables0 + of_nat (length existing)"
proof (induction existing arbitrary: tables_to_detach0 total_tables0)
  case Nil
  then show ?case by simp
next
  case (Cons t existing)
  from Cons.prems obtain detach where
    d: "should_detach parser table_name_to_metadata (tbl_name t) (tbl_metadata t) = Inr detach"
    by (auto split: sum.splits)
  with Cons.prems have
    "reconcile_tables parser table_name_to_metadata existing
       (if detach then tables_to_detach0 @ [tbl_name t] else tables_to_detach0) (total_tables0 + 1)
     = Inr (tables_to_detach, total_tables)"
    by simp
  from Cons.IH [OF this] d show ?case
    by (cases detach) simp_all
qed

lemma safety_valve_word:
  fixes T D :: nat
  assumes "D \<le> T" and "T < 2 ^ 63"
  shows "((of_nat T :: 64 word) < of_nat D * 2) = (T < 2 * D)"
proof -
  have T: "T mod 18446744073709551616 = T"
    using assms(2) by simp
  have D: "D mod 18446744073709551616 = D"
    using assms by simp
  have D2: "D * 2 mod 18446744073709551616 = 2 * D"
    using assms by simp
  have "unat (of_nat T :: 64 word) = T"
    by (simp add: unat_of_nat T)
  moreover have "unat (of_nat D * 2 :: 64 word) = 2 * D"
    by (simp add: unat_word_ariths unat_of_nat D D2)
  ultimately show ?thesis
    by (simp add: word_less_nat_alt)
qed

lemma recover_guard:
  "our_log_ptr = 0 \<Longrightarrow> rs_tables s \<noteq> [] \<Longrightarrow>
   recoverLostReplica env db our_log_ptr max_log_ptr s = (s, Some LOGICAL_ERROR)"
  by (simp add: recoverLostReplica_def empty_catalog_def)

lemma recover_snapshot_error:
  "\<not> (our_log_ptr = 0 \<and> rs_tables s \<noteq> []) \<Longrightarrow>
   tryGetConsistentMetadataSnapshot (re_zookeeper env) (re_unescapeForFileName env)
     (db_zookeeper_path db) max_log_ptr = Inl e \<Longrightarrow>
   recoverLostReplica env db our_log_ptr max_log_ptr s = (s, Some e)"
  by (auto simp: recoverLostReplica_def empty_catalog_def)

lemma recover_reconcile_error:
  "\<not> (our_log_ptr = 0 \<and> rs_tables s \<noteq> []) \<Longrightarrow>
   tryGetConsistentMetadataSnapshot (re_zookeeper env) (re_unescapeForFileName env)
     (db_zookeeper_path db) max_log_ptr = Inr (table_name_to_metadata, max_log_ptr') \<Longrightarrow>
   reconcile_tables (re_parser env) table_name_to_metadata (rs_tables s) [] 0 = Inl e \<Longrightarrow>
   recoverLostReplica env db our_log_ptr max_log_ptr s = (s, Some e)"
  by (auto simp: recoverLostReplica_def empty_catalog_def)

lemma recover_safety_valve:
  assumes "\<not> (our_log_ptr = 0 \<and> rs_tables s \<noteq> [])"
    and "tryGetConsistentMetadataSnapshot (re_zookeeper env) (re_unescapeForFileName env)
           (db_zookeeper_path db) max_log_ptr = Inr (table_name_to_metadata, max_log_ptr')"
    and "reconcile_tables (re_parser env) table_name_to_metadata (rs_tables s) [] 0
           = Inr (tables_to_detach, total_tables)"
    and "length (rs_tables s) < 2 * length tables_to_detach"
    and "length (rs_tables s) < 2 ^ 63"
  shows "recoverLostReplica env db our_log_ptr max_log_ptr s = (s, Some DATABASE_REPLICATION_FAILED)"
proof -
  from reconcile_tables_result [OF assms(3)]
  have D: "tables_to_detach
             = map tbl_name (filter (\<lambda>t. should_detach (re_parser env) table_name_to_metadata
                                          (tbl_name t) (tbl_metadata t) = Inr True) (rs_tables s))"
    and T: "total_tables = of_nat (length (rs_tables s))"
    by simp_all
  have "length tables_to_detach \<le> length (rs_tables s)"
    unfolding D by simp
  from safety_valve_word [OF this assms(5)] assms(4) T
  have "total_tables < of_nat (length tables_to_detach) * 2"
    by simp
  with assms(1,2,3) show ?thesis
    by (auto simp: recoverLostReplica_def empty_catalog_def Let_def)
qed


lemma example_snapshot_read:
  "tryGetConsistentMetadataSnapshot (re_zookeeper example_env) (re_unescapeForFileName example_env)
     (db_zookeeper_path example_db) 5 = Inr (example_snapshot, 5)"
  by (simp add: tryGetConsistentMetadataSnapshot_def example_env_def example_db_def
      example_snapshot_def snapshot_loop.simps max_retries_def map_emplace_def)

subsection \<open>C1: reconciliation of the local tables\<close>

text \<open>
  C1, as stated, fails: the table \<open>t\<close> is in the snapshot with a text that contains
  \<open>ReplicatedMergeTree\<close>, its local metadata file is empty and does not parse, so the two
  sides do not both parse to CREATE statements and the claim has the table marked for
  detach. The code parses the local text at line 331 and the parser's exception ends the
  loop: the table is neither kept nor marked.
\<close>

theorem C1_counterexample:
  "map_of example_snapshot ''t'' = Some ''UUID 7 ENGINE = ReplicatedMergeTree ORDER BY x''
   \<and> example_parser [] = Inl SYNTAX_ERROR
   \<and> should_detach example_parser example_snapshot ''t'' [] = Inl SYNTAX_ERROR
   \<and> reconcile_tables example_parser example_snapshot [example_table ''t'' [] 7] [] 0
       = Inl SYNTAX_ERROR"
  by (simp add: example_snapshot_def example_parser_def should_detach_def example_table_def
      find_str_def)

text \<open>
  C1, amended: during recovery reconciliation, for every table of the local catalog whose
  name is in the snapshot: if the local metadata text equals the snapshot text the table is
  kept; if the texts differ and the snapshot text does not contain \<open>ReplicatedMergeTree\<close>
  it is marked for detach; if the texts differ, the snapshot text contains
  \<open>ReplicatedMergeTree\<close> and both texts parse, it is kept when the two UUIDs are equal and
  marked for detach when they differ; if one of the two texts does not parse, the parser's
  exception ends the reconciliation. When the loop ends without an exception, the detach
  list holds, in the order of the catalog, the names of the tables so marked, and the
  count of tables is the size of the catalog.
\<close>

theorem C1_reconciliation:
  assumes "map_of table_name_to_metadata (tbl_name t) = Some zk_metadata"
  shows "(zk_metadata = tbl_metadata t \<longrightarrow>
            should_detach parser table_name_to_metadata (tbl_name t) (tbl_metadata t) = Inr False)
       \<and> (zk_metadata \<noteq> tbl_metadata t \<and> find_str zk_metadata ''ReplicatedMergeTree'' = None \<longrightarrow>
            should_detach parser table_name_to_metadata (tbl_name t) (tbl_metadata t) = Inr True)
       \<and> (zk_metadata \<noteq> tbl_metadata t \<and> find_str zk_metadata ''ReplicatedMergeTree'' \<noteq> None
            \<and> parser (tbl_metadata t) = Inr local_create \<and> parser zk_metadata = Inr zk_create \<longrightarrow>
            should_detach parser table_name_to_metadata (tbl_name t) (tbl_metadata t)
              = Inr (ast_uuid local_create \<noteq> ast_uuid zk_create))
       \<and> (zk_metadata \<noteq> tbl_metadata t \<and> find_str zk_metadata ''ReplicatedMergeTree'' \<noteq> None
            \<and> parser (tbl_metadata t) = Inl e \<longrightarrow>
            should_detach parser table_name_to_metadata (tbl_name t) (tbl_metadata t) = Inl e)
       \<and> (zk_metadata \<noteq> tbl_metadata t \<and> find_str zk_metadata ''ReplicatedMergeTree'' \<noteq> None
            \<and> parser (tbl_metadata t) = Inr local_create \<and> parser zk_metadata = Inl e \<longrightarrow>
            should_detach parser table_name_to_metadata (tbl_name t) (tbl_metadata t) = Inl e)
       \<and> (reconcile_tables parser table_name_to_metadata existing [] 0
              = Inr (tables_to_detach, total_tables) \<longrightarrow>
            tables_to_detach
              = map tbl_name
                  (filter (\<lambda>t. should_detach parser table_name_to_metadata (tbl_name t) (tbl_metadata t)
                                 = Inr True) existing)
            \<and> total_tables = of_nat (length existing))"
proof -
  have loop: "reconcile_tables parser table_name_to_metadata existing [] 0
                = Inr (tables_to_detach, total_tables) \<longrightarrow>
              tables_to_detach
                = map tbl_name
                    (filter (\<lambda>t. should_detach parser table_name_to_metadata (tbl_name t) (tbl_metadata t)
                                   = Inr True) existing)
              \<and> total_tables = of_nat (length existing)"
    using reconcile_tables_result [of parser table_name_to_metadata existing "[]" 0
        tables_to_detach total_tables]
    by simp
  show ?thesis
    using assms loop by (simp add: should_detach_def)
qed

theorem C1_reconciliation_witness:
  "should_detach example_parser example_snapshot ''t''
       ''UUID 7 ENGINE = ReplicatedMergeTree ORDER BY y'' = Inr False
   \<and> should_detach example_parser example_snapshot ''t''
       ''UUID 6 ENGINE = ReplicatedMergeTree ORDER BY x'' = Inr True
   \<and> should_detach example_parser example_snapshot ''a'' ''UUID 8 ENGINE = Log'' = Inr False
   \<and> should_detach example_parser example_snapshot ''a'' ''UUID 8 ENGINE = Memory'' = Inr True
   \<and> reconcile_tables example_parser example_snapshot (rs_tables diverged_replica) [] 0
       = Inr ([''a'', ''t''], 2)"
  using
    C1_reconciliation [where table_name_to_metadata = example_snapshot and parser = example_parser
      and t = "example_table ''t'' ''UUID 7 ENGINE = ReplicatedMergeTree ORDER BY y'' 7"
      and zk_metadata = "''UUID 7 ENGINE = ReplicatedMergeTree ORDER BY x''"
      and local_create = "\<lparr>ast_uuid = 7, ast_database = [], ast_table = ''_'', ast_attach = True,
                             ast_storage = ''UUID 7 ENGINE = ReplicatedMergeTree ORDER BY y''\<rparr>"
      and zk_create = "\<lparr>ast_uuid = 7, ast_database = [], ast_table = ''_'', ast_attach = True,
                          ast_storage = ''UUID 7 ENGINE = ReplicatedMergeTree ORDER BY x''\<rparr>"
      and e = SYNTAX_ERROR and existing = "rs_tables diverged_replica"
      and tables_to_detach = "[''a'', ''t'']" and total_tables = 2]
  by (simp add: example_snapshot_def example_parser_def example_table_def diverged_replica_def
      should_detach_def find_str_def)

subsection \<open>C6: a log pointer of 0 on a non-empty catalog\<close>

text \<open>
  C6, as stated, fails: with a local log pointer of 0 and the two tables of the snapshot in
  the local catalog, the store would give a consistent snapshot and the reconciliation
  would find nothing to detach, but the function rejects the invocation with
  \<open>LOGICAL_ERROR\<close> at lines 308--309, before it reads the snapshot.
\<close>

theorem C6_counterexample:
  "recoverLostReplica example_env example_db 0 5 converged_replica
     = (converged_replica, Some LOGICAL_ERROR)
   \<and> tryGetConsistentMetadataSnapshot (re_zookeeper example_env) (re_unescapeForFileName example_env)
        (db_zookeeper_path example_db) 5 = Inr (example_snapshot, 5)
   \<and> reconcile_tables (re_parser example_env) example_snapshot (rs_tables converged_replica) [] 0
       = Inr ([], 2)"
proof -
  have "rs_tables converged_replica \<noteq> []"
    by (simp add: converged_replica_def)
  then have "recoverLostReplica example_env example_db 0 5 converged_replica
               = (converged_replica, Some LOGICAL_ERROR)"
    by (simp add: recover_guard)
  moreover have "reconcile_tables (re_parser example_env) example_snapshot
                   (rs_tables converged_replica) [] 0 = Inr ([], 2)"
    by (simp add: example_env_def example_snapshot_def converged_replica_def example_table_def
        should_detach_def)
  ultimately show ?thesis
    using example_snapshot_read by simp
qed

text \<open>
  C6, amended: recoverLostReplica, when invoked with a local log pointer of 0 while the
  local catalog is non-empty, raises \<open>LOGICAL_ERROR\<close> and leaves the replica as it is,
  whatever the store holds. Otherwise (a non-zero log pointer, or an empty catalog) it
  goes on to obtain the snapshot and to reconcile: an exception of
  tryGetConsistentMetadataSnapshot or of the reconciliation loop is the exception of the
  function.
\<close>

theorem C6_new_replica_guard:
  "(our_log_ptr = 0 \<and> rs_tables s \<noteq> [] \<longrightarrow>
      recoverLostReplica env db our_log_ptr max_log_ptr s = (s, Some LOGICAL_ERROR))
   \<and> (\<not> (our_log_ptr = 0 \<and> rs_tables s \<noteq> [])
        \<and> tryGetConsistentMetadataSnapshot (re_zookeeper env) (re_unescapeForFileName env)
             (db_zookeeper_path db) max_log_ptr = Inl e \<longrightarrow>
      recoverLostReplica env db our_log_ptr max_log_ptr s = (s, Some e))
   \<and> (\<not> (our_log_ptr = 0 \<and> rs_tables s \<noteq> [])
        \<and> tryGetConsistentMetadataSnapshot (re_zookeeper env) (re_unescapeForFileName env)
             (db_zookeeper_path db) max_log_ptr = Inr (table_name_to_metadata, max_log_ptr')
        \<and> reconcile_tables (re_parser env) table_name_to_metadata (rs_tables s) [] 0 = Inl e \<longrightarrow>
      recoverLostReplica env db our_log_ptr max_log_ptr s = (s, Some e))"
  using recover_guard [of our_log_ptr s env db max_log_ptr]
    recover_snapshot_error [of our_log_ptr s env db max_log_ptr e]
    recover_reconcile_error [of our_log_ptr s env db max_log_ptr table_name_to_metadata max_log_ptr' e]
  by blast

theorem C6_new_replica_guard_witness:
  "recoverLostReplica example_env example_db 0 5 diverged_replica
     = (diverged_replica, Some LOGICAL_ERROR)
   \<and> recoverLostReplica example_env example_db 3 5
        (diverged_replica\<lparr>rs_tables := [example_table ''t'' [] 7]\<rparr>)
     = (diverged_replica\<lparr>rs_tables := [example_table ''t'' [] 7]\<rparr>, Some SYNTAX_ERROR)"
  using
    C6_new_replica_guard [of 0 diverged_replica example_env example_db 5 SYNTAX_ERROR example_snapshot 5]
    C6_new_replica_guard [of 3 "diverged_replica\<lparr>rs_tables := [example_table ''t'' [] 7]\<rparr>"
      example_env example_db 5 SYNTAX_ERROR example_snapshot 5]
    example_snapshot_read
  by (simp add: diverged_replica_def example_env_def example_snapshot_def example_parser_def
      example_table_def should_detach_def find_str_def)

subsection \<open>C2: the safety valve\<close>

text \<open>
  C2: when the function has passed the guard of line 308, has obtained the snapshot and
  has finished the reconciliation loop with the detach list \<open>tables_to_detach\<close>, and the
  number \<open>T\<close> of local tables and the size \<open>D\<close> of the detach list satisfy \<open>T < 2 * D\<close>,
  it raises \<open>DATABASE_REPLICATION_FAILED\<close> and leaves the replica as it was: the local
  catalog is unchanged and no call has been issued (no drop, no rename, no CREATE DATABASE
  for the broken tables). The two sizes are \<^verbatim>\<open>size_t\<close> values; a catalog has fewer than
  \<open>2 ^ 63\<close> objects, so the product of line 352 does not wrap.
\<close>

theorem C2_safety_valve:
  assumes "\<not> (our_log_ptr = 0 \<and> rs_tables s \<noteq> [])"
    and "tryGetConsistentMetadataSnapshot (re_zookeeper env) (re_unescapeForFileName env)
           (db_zookeeper_path db) max_log_ptr = Inr (table_name_to_metadata, max_log_ptr')"
    and "reconcile_tables (re_parser env) table_name_to_metadata (rs_tables s) [] 0
           = Inr (tables_to_detach, total_tables)"
    and "length (rs_tables s) < 2 * length tables_to_detach"
    and "length (rs_tables s) < 2 ^ 63"
  shows "recoverLostReplica env db our_log_ptr max_log_ptr s = (s, Some DATABASE_REPLICATION_FAILED)"
  using assms by (rule recover_safety_valve)

theorem C2_safety_valve_witness:
  "recoverLostReplica example_env example_db 3 5 diverged_replica
     = (diverged_replica, Some DATABASE_REPLICATION_FAILED)
   \<and> reconcile_tables (re_parser example_env) example_snapshot (rs_tables diverged_replica) [] 0
       = Inr ([''a'', ''t''], 2)"
  using
    C2_safety_valve [of 3 diverged_replica example_env example_db 5 example_snapshot 5
      "[''a'', ''t'']" 2]
    example_snapshot_read
  by (simp add: diverged_replica_def example_env_def example_snapshot_def example_parser_def
      example_table_def should_detach_def find_str_def)


end
